theory Spec2Isabelle
  imports Complex_Main "HOL-Library.Word" "HOL-Library.Multiset" "HOL-Library.Product_Lexorder"
    "HOL-Library.Char_ord" "HOL-Library.List_Lexorder"
begin

unbundle bit_operations_syntax

section \<open>Event model (hepconduit/models.py)\<close>

text \<open>
  Python exceptions that the modelled functions can raise. A function that can raise
  returns \<open>py_error + 'a\<close>, with \<open>Inl\<close> for the exception.
\<close>

datatype py_error =
  ValueError | IndexError | KeyError | OverflowError | ZeroDivisionError

text \<open>
  Python floats. The fingerprinter and the loss observer are modelled on \<open>real\<close>: a
  finite float is read as the real number it denotes. The readers produce floats from
  text, where the tokens \<open>inf\<close> and \<open>nan\<close> are legal, so their results live in
  \<open>pyfloat\<close>. The validator compares rounded results with a threshold, so it is modelled
  over the float operations themselves, which are instantiated with binary64 arithmetic
  on \<open>pyfloat\<close>. The dataclasses are therefore parametrised by the float type \<open>'f\<close>.
\<close>

datatype pyfloat = Fin real | PosInf | NegInf | NaN

text \<open>Values of the free-form \<open>attributes\<close> and \<open>extra\<close> dictionaries, and of JSON documents.\<close>

datatype json =
    JNull
  | JBool bool
  | JInt int
  | JStr string
  | JList "json list"
  | JDict "(string \<times> json) list"

record 'f particle =
  pdg_id :: int
  status :: int
  px :: 'f
  py :: 'f
  pz :: 'f
  energy :: 'f
  mass :: 'f
  mother1 :: int
  mother2 :: int
  color1 :: int
  color2 :: int
  spin :: 'f
  barcode :: int
  vertex_barcode :: int
  end_vertex_barcode :: int
  attributes :: "(string \<times> json) list"

record 'f vertex =
  vbarcode :: int
  vx :: 'f
  vy :: 'f
  vz :: 'f
  vt :: 'f
  incoming :: "int list"
  outgoing :: "int list"

record 'f event =
  event_number :: int
  particles :: "'f particle list"
  vertices :: "'f vertex list"
  weights :: "'f list"
  process_id :: int
  scale :: 'f
  alpha_qed :: 'f
  alpha_qcd :: 'f
  n_particles :: int
  extra :: "(string \<times> json) list"

text \<open>Python list indexing \<open>xs[i]\<close> for \<open>i \<ge> 0\<close>: raises IndexError out of range.\<close>

definition py_index :: "'a list \<Rightarrow> nat \<Rightarrow> py_error + 'a" where
  "py_index xs i = (if i < length xs then Inr (xs ! i) else Inl IndexError)"

text \<open>
  \<^verbatim>\<open>
  @property
  def weight(self) -> float:
      return self.weights[0] if self.weights else 1.0
  \<close>
\<close>

definition weight :: "('f::one) event \<Rightarrow> py_error + 'f" where
  "weight ev = (if weights ev \<noteq> [] then py_index (weights ev) 0 else Inr 1)"

text \<open>Sequencing of calls that may raise.\<close>

definition bind :: "py_error + 'a \<Rightarrow> ('a \<Rightarrow> py_error + 'b) \<Rightarrow> py_error + 'b" where
  "bind r f = (case r of Inl e \<Rightarrow> Inl e | Inr x \<Rightarrow> f x)"

section \<open>Physics validator (hepconduit/validation.py)\<close>

text \<open>
  The validator computes with Python floats. Their operations belong to the interpreter
  and the machine (IEEE 754 binary64, every result rounded), not to the repository, so
  the model takes them as a parameter: a record \<open>ops\<close> of the operations that
  \<open>validate_event\<close> and \<open>Particle.computed_mass\<close> use, on a type \<open>'f\<close> of floats.
  \<^item> \<open>f_lit m e\<close> is the float that the literal \<open>m\<close>e\<open>e\<close> denotes: \<open>f_lit 1 (-4)\<close> is
    \<open>1e-4\<close>, and \<open>f_lit 0 0\<close> is \<open>0.0\<close>, which the integer \<open>0\<close> of the source equals in
    every comparison;
  \<^item> \<open>f_sum xs\<close> is the built-in \<open>sum\<close> over the floats \<open>xs\<close>;
  \<^item> \<open>f_sub\<close>, \<open>f_abs\<close>, \<open>f_neg\<close> are \<open>x - y\<close>, \<open>abs(x)\<close> and \<open>-x\<close>, and \<open>f_quot x y\<close> is the
    quotient \<open>x / y\<close> for a divisor that is not zero;
  \<^item> \<open>f_pow2 x\<close> is \<open>x**2\<close>, which raises OverflowError when the square of a finite
    float is out of range; \<open>f_sqrt x\<close> is \<open>math.sqrt(x)\<close>, which raises ValueError on a
    negative float;
  \<^item> \<open>f_lt\<close>, \<open>f_gt\<close>, \<open>f_ge\<close>, \<open>f_eq\<close> are \<open><\<close>, \<open>>\<close>, \<open>>=\<close> and \<open>==\<close>.
  The instance for binary64 is \<open>binary64_ops\<close> below.
\<close>

record 'f float_ops =
  f_lit :: "int \<Rightarrow> int \<Rightarrow> 'f"
  f_sum :: "'f list \<Rightarrow> 'f"
  f_sub :: "'f \<Rightarrow> 'f \<Rightarrow> 'f"
  f_quot :: "'f \<Rightarrow> 'f \<Rightarrow> 'f"
  f_abs :: "'f \<Rightarrow> 'f"
  f_neg :: "'f \<Rightarrow> 'f"
  f_pow2 :: "'f \<Rightarrow> py_error + 'f"
  f_sqrt :: "'f \<Rightarrow> py_error + 'f"
  f_lt :: "'f \<Rightarrow> 'f \<Rightarrow> bool"
  f_gt :: "'f \<Rightarrow> 'f \<Rightarrow> bool"
  f_ge :: "'f \<Rightarrow> 'f \<Rightarrow> bool"
  f_eq :: "'f \<Rightarrow> 'f \<Rightarrow> bool"

text \<open>\<open>x / y\<close> on floats: ZeroDivisionError when \<open>y == 0\<close>.\<close>

definition py_div :: "'f float_ops \<Rightarrow> 'f \<Rightarrow> 'f \<Rightarrow> py_error + 'f" where
  "py_div ops x y =
     (if f_eq ops y (f_lit ops 0 0) then Inl ZeroDivisionError else Inr (f_quot ops x y))"

text \<open>
  The built-in \<open>max(a, b)\<close> and \<open>max(a, b, c)\<close>: the first argument, replaced in turn by
  each later one that is greater (\<open>>\<close>) than the maximum so far.
\<close>

definition py_max2 :: "'f float_ops \<Rightarrow> 'f \<Rightarrow> 'f \<Rightarrow> 'f" where
  "py_max2 ops a b = (if f_gt ops b a then b else a)"

definition py_max3 :: "'f float_ops \<Rightarrow> 'f \<Rightarrow> 'f \<Rightarrow> 'f \<Rightarrow> 'f" where
  "py_max3 ops a b c = py_max2 ops (py_max2 ops a b) c"

text \<open>
  The message of an issue is an f-string built from the values below; the model keeps
  the values and leaves the decimal formatting out. \<open>MomentumMsg label s_in s_out diff rel\<close>
  stands for
  \<^verbatim>\<open>f"Momentum non-conservation in {label}: in=.., out=.., diff=.. (.. relative)"\<close>.
\<close>

datatype 'f issue_message =
    NoParticlesMsg
  | InvalidPdgMsg int
  | NegativeEnergyMsg 'f
  | MassInconsistencyMsg 'f 'f 'f
  | MomentumMsg string 'f 'f 'f 'f

text \<open>\<open>ValidationIssue level event_number particle_index message\<close>\<close>

datatype 'f validation_issue = ValidationIssue string int "nat option" "'f issue_message"

text \<open>The keyword arguments of \<open>validate_event\<close>, with their defaults.\<close>

record 'f validate_opts =
  check_momentum :: bool
  check_pdg :: bool
  check_energy :: bool
  check_mass :: bool
  momentum_tolerance :: 'f
  mass_tolerance :: 'f

definition default_opts :: "'f float_ops \<Rightarrow> 'f validate_opts" where
  "default_opts ops = \<lparr> check_momentum = True, check_pdg = True, check_energy = True,
     check_mass = True, momentum_tolerance = f_lit ops 1 (- 4),
     mass_tolerance = f_lit ops 1 (- 2) \<rparr>"

text \<open>
  \<^verbatim>\<open>
  m2 = self.energy**2 - self.px**2 - self.py**2 - self.pz**2
  if m2 < 0 and abs(m2) < 1e-8:
      m2 = 0.0
  return math.sqrt(m2) if m2 >= 0 else -math.sqrt(-m2)
  \<close>
  The operands are evaluated from left to right, and the first square that overflows
  raises.
\<close>

definition computed_mass :: "'f float_ops \<Rightarrow> 'f particle \<Rightarrow> py_error + 'f" where
  "computed_mass ops p =
     bind (f_pow2 ops (energy p)) (\<lambda>e2.
     bind (f_pow2 ops (px p)) (\<lambda>x2.
     bind (f_pow2 ops (py p)) (\<lambda>y2.
     bind (f_pow2 ops (pz p)) (\<lambda>z2.
       (let m2 = f_sub ops (f_sub ops (f_sub ops e2 x2) y2) z2;
            m2c = (if f_lt ops m2 (f_lit ops 0 0) \<and> f_lt ops (f_abs ops m2) (f_lit ops 1 (- 8))
                   then f_lit ops 0 0 else m2)
        in if f_ge ops m2c (f_lit ops 0 0) then f_sqrt ops m2c
           else bind (f_sqrt ops (f_neg ops m2c)) (\<lambda>r. Inr (f_neg ops r)))))))"

text \<open>
  The PDG check delegates to \<open>pdg.is_valid_pdg_id\<close>, which asks the optional
  third-party package \<open>particle\<close> and catches its exceptions; it is a parameter of the
  model.
\<close>

definition pdg_check ::
  "(int \<Rightarrow> bool) \<Rightarrow> int \<Rightarrow> 'f particle list \<Rightarrow> 'f validation_issue list" where
  "pdg_check is_valid_pdg_id evt ps =
     concat (map (\<lambda>(i, p). if \<not> is_valid_pdg_id (pdg_id p)
                              then [ValidationIssue ''warning'' evt (Some i) (InvalidPdgMsg (pdg_id p))]
                              else [])
                 (enumerate 0 ps))"

text \<open>\<open>if p.energy < 0:\<close>\<close>

definition energy_check ::
  "'f float_ops \<Rightarrow> int \<Rightarrow> 'f particle list \<Rightarrow> 'f validation_issue list" where
  "energy_check ops evt ps =
     concat (map (\<lambda>(i, p). if f_lt ops (energy p) (f_lit ops 0 0)
                              then [ValidationIssue ''error'' evt (Some i) (NegativeEnergyMsg (energy p))]
                              else [])
                 (enumerate 0 ps))"

text \<open>
  \<^verbatim>\<open>
  for i, p in enumerate(event.particles):
      if p.mass == 0:
          continue
      if abs(p.mass) < 1e-3:
          continue
      computed = p.computed_mass
      rel_diff = abs(computed - p.mass) / max(abs(p.mass), 1e-12)
      if rel_diff > mass_tolerance:
          issues.append(ValidationIssue("warning", evt, i, ...))
  \<close>
  An exception raised for one particle leaves \<open>validate_event\<close>: no list is returned.
\<close>

fun mass_check ::
  "'f float_ops \<Rightarrow> 'f \<Rightarrow> int \<Rightarrow> (nat \<times> 'f particle) list
     \<Rightarrow> py_error + 'f validation_issue list" where
  "mass_check ops mass_tol evt [] = Inr []"
| "mass_check ops mass_tol evt ((i, p) # rest) =
     (if f_eq ops (mass p) (f_lit ops 0 0) then mass_check ops mass_tol evt rest
      else if f_lt ops (f_abs ops (mass p)) (f_lit ops 1 (- 3))
      then mass_check ops mass_tol evt rest
      else bind (computed_mass ops p) (\<lambda>computed.
           bind (py_div ops (f_abs ops (f_sub ops computed (mass p)))
                   (py_max2 ops (f_abs ops (mass p)) (f_lit ops 1 (- 12)))) (\<lambda>rel_diff.
           bind (mass_check ops mass_tol evt rest) (\<lambda>more.
             Inr ((if f_gt ops rel_diff mass_tol
                   then [ValidationIssue ''warning'' evt (Some i)
                           (MassInconsistencyMsg (mass p) computed rel_diff)]
                   else []) @ more)))))"

definition labels :: "string list" where
  "labels = [''px'', ''py'', ''pz'', ''E'']"

text \<open>
  \<^verbatim>\<open>
  incoming = [p for p in event.particles if p.status == -1]
  outgoing = [p for p in event.particles if p.status == 1]
  if incoming and outgoing:
      sum_in = [sum(p.px for p in incoming), ..py, ..pz, ..energy]
      sum_out = [sum(p.px for p in outgoing), ..py, ..pz, ..energy]
      total_energy = max(abs(sum_in[3]), abs(sum_out[3]), 1e-10)
      for j in range(4):
          diff = abs(sum_in[j] - sum_out[j])
          if diff / total_energy > momentum_tolerance:
              issues.append(ValidationIssue("error", evt, None, ...))
  \<close>
\<close>

definition four_sum :: "'f float_ops \<Rightarrow> 'f particle list \<Rightarrow> 'f list" where
  "four_sum ops ps = [f_sum ops (map px ps), f_sum ops (map py ps),
                      f_sum ops (map pz ps), f_sum ops (map energy ps)]"

text \<open>The loop \<open>for j in range(4)\<close>, over the indices that are left.\<close>

fun momentum_loop ::
  "'f float_ops \<Rightarrow> 'f \<Rightarrow> int \<Rightarrow> 'f list \<Rightarrow> 'f list \<Rightarrow> 'f \<Rightarrow> nat list
     \<Rightarrow> py_error + 'f validation_issue list" where
  "momentum_loop ops tol evt sum_in sum_out total_energy [] = Inr []"
| "momentum_loop ops tol evt sum_in sum_out total_energy (j # js) =
     (let diff = f_abs ops (f_sub ops (sum_in ! j) (sum_out ! j))
      in bind (py_div ops diff total_energy) (\<lambda>rel.
         bind (momentum_loop ops tol evt sum_in sum_out total_energy js) (\<lambda>more.
           Inr ((if f_gt ops rel tol
                 then [ValidationIssue ''error'' evt None
                         (MomentumMsg (labels ! j) (sum_in ! j) (sum_out ! j) diff rel)]
                 else []) @ more))))"

definition momentum_check ::
  "'f float_ops \<Rightarrow> 'f \<Rightarrow> int \<Rightarrow> 'f particle list \<Rightarrow> py_error + 'f validation_issue list" where
  "momentum_check ops tol evt ps =
     (let incoming_ps = filter (\<lambda>p. status p = - 1) ps;
          outgoing_ps = filter (\<lambda>p. status p = 1) ps
      in if incoming_ps \<noteq> [] \<and> outgoing_ps \<noteq> [] then
           (let sum_in = four_sum ops incoming_ps;
                sum_out = four_sum ops outgoing_ps;
                total_energy = py_max3 ops (f_abs ops (sum_in ! 3)) (f_abs ops (sum_out ! 3))
                                 (f_lit ops 1 (- 10))
            in momentum_loop ops tol evt sum_in sum_out total_energy [0, 1, 2, 3])
         else Inr [])"

text \<open>
  \<open>validate_event\<close> returns the list of issues, unless one of its checks raises. The
  checks run in the order of the source: PDG, energy, mass, momentum.
\<close>

definition validate_event ::
  "'f float_ops \<Rightarrow> (int \<Rightarrow> bool) \<Rightarrow> 'f validate_opts \<Rightarrow> 'f event
     \<Rightarrow> py_error + 'f validation_issue list" where
  "validate_event ops is_valid_pdg_id opts ev =
     (let evt = event_number ev; ps = particles ev
      in if ps = [] then Inr [ValidationIssue ''warning'' evt None NoParticlesMsg]
         else
           (let pdg_issues = (if check_pdg opts then pdg_check is_valid_pdg_id evt ps else []);
                energy_issues = (if check_energy opts then energy_check ops evt ps else [])
            in bind (if check_mass opts
                     then mass_check ops (mass_tolerance opts) evt (enumerate 0 ps)
                     else Inr []) (\<lambda>mass_issues.
               bind (if check_momentum opts
                     then momentum_check ops (momentum_tolerance opts) evt ps
                     else Inr []) (\<lambda>momentum_issues.
                 Inr (pdg_issues @ energy_issues @ mass_issues @ momentum_issues)))))"

text \<open>
  The quantities of the specification's sentence on momentum conservation, computed with
  the same float operations: the sum of component \<open>k\<close> (0 = px, 1 = py, 2 = pz, 3 = E)
  over the particles of a given status, and the relative imbalance
  \<open>|\<Sigma>in_k - \<Sigma>out_k| / max(|\<Sigma>in_E|, |\<Sigma>out_E|, 1e-10)\<close>.
\<close>

definition component :: "nat \<Rightarrow> 'f particle \<Rightarrow> 'f" where
  "component k p = [px p, py p, pz p, energy p] ! k"

definition status_sum :: "'f float_ops \<Rightarrow> int \<Rightarrow> nat \<Rightarrow> 'f event \<Rightarrow> 'f" where
  "status_sum ops st k ev =
     f_sum ops (map (component k) (filter (\<lambda>p. status p = st) (particles ev)))"

definition imbalance :: "'f float_ops \<Rightarrow> nat \<Rightarrow> 'f event \<Rightarrow> 'f" where
  "imbalance ops k ev =
     f_quot ops (f_abs ops (f_sub ops (status_sum ops (- 1) k ev) (status_sum ops 1 k ev)))
       (py_max3 ops (f_abs ops (status_sum ops (- 1) 3 ev)) (f_abs ops (status_sum ops 1 3 ev))
          (f_lit ops 1 (- 10)))"

text \<open>The list of issues holds a momentum-conservation error for component \<open>k\<close>.\<close>

definition momentum_error :: "nat \<Rightarrow> 'f validation_issue list \<Rightarrow> bool" where
  "momentum_error k issues =
     (\<exists>i \<in> set issues. case i of ValidationIssue lv en pidx msg \<Rightarrow>
         lv = ''error'' \<and> (case msg of MomentumMsg lab a b c d \<Rightarrow> lab = labels ! k | _ \<Rightarrow> False))"

text \<open>
  A call returns (a value, no exception); a call of \<open>validate_event\<close> emits a
  momentum-conservation error for component \<open>k\<close> when it returns a list that holds one.
\<close>

definition returns :: "py_error + 'a \<Rightarrow> bool" where
  "returns r = (case r of Inl e \<Rightarrow> False | Inr x \<Rightarrow> True)"

definition emits :: "nat \<Rightarrow> py_error + 'f validation_issue list \<Rightarrow> bool" where
  "emits k r = (case r of Inl e \<Rightarrow> False | Inr issues \<Rightarrow> momentum_error k issues)"

text \<open>
  Two facts of float comparison that the validator relies on for its divisor
  \<open>max(.., .., 1e-10)\<close>: \<open>1e-10\<close> is not equal to zero, and it is greater than every float
  that is equal to zero.
\<close>

definition floor_positive :: "'f float_ops \<Rightarrow> bool" where
  "floor_positive ops =
     (\<not> f_eq ops (f_lit ops 1 (- 10)) (f_lit ops 0 0) \<and>
      (\<forall>x. f_eq ops x (f_lit ops 0 0) \<longrightarrow> f_gt ops (f_lit ops 1 (- 10)) x))"

section \<open>Concrete events used in the examples\<close>

definition photon :: "int \<Rightarrow> real \<Rightarrow> real \<Rightarrow> real particle" where
  "photon st p_z e = \<lparr> pdg_id = 22, status = st, px = 0, py = 0, pz = p_z, energy = e, mass = 0,
     mother1 = 0, mother2 = 0, color1 = 0, color2 = 0, spin = 9, barcode = 0,
     vertex_barcode = 0, end_vertex_barcode = 0, attributes = [] \<rparr>"

definition event_of :: "real particle list \<Rightarrow> real event" where
  "event_of ps = \<lparr> event_number = 1, particles = ps, vertices = [], weights = [1],
     process_id = 0, scale = 0, alpha_qed = 0, alpha_qcd = 0,
     n_particles = int (length ps), extra = [] \<rparr>"

section \<open>SHA-256 (hashlib.sha256, FIPS 180-4)\<close>

text \<open>
  The fingerprint and the loss hash are \<open>hashlib.sha256(...).hexdigest()\<close>. The digest
  is modelled as the standard defines it, on bytes given as integers in \<open>0..255\<close> and
  32-bit words. A hash object that receives several \<open>update\<close> calls digests the
  concatenation of their arguments.
\<close>

type_synonym u32 = "32 word"

definition rotr :: "nat \<Rightarrow> u32 \<Rightarrow> u32" where
  "rotr n x = (drop_bit n x) OR (push_bit (32 - n) x)"

text \<open>The round constants K(0..63) and the initial hash value H(0), in decimal.\<close>

definition sha_k :: "u32 list" where
  "sha_k = [
   1116352408, 1899447441, 3049323471, 3921009573, 961987163, 1508970993, 2453635748, 2870763221,
   3624381080, 310598401, 607225278, 1426881987, 1925078388, 2162078206, 2614888103, 3248222580,
   3835390401, 4022224774, 264347078, 604807628, 770255983, 1249150122, 1555081692, 1996064986,
   2554220882, 2821834349, 2952996808, 3210313671, 3336571891, 3584528711, 113926993, 338241895,
   666307205, 773529912, 1294757372, 1396182291, 1695183700, 1986661051, 2177026350, 2456956037,
   2730485921, 2820302411, 3259730800, 3345764771, 3516065817, 3600352804, 4094571909, 275423344,
   430227734, 506948616, 659060556, 883997877, 958139571, 1322822218, 1537002063, 1747873779,
   1955562222, 2024104815, 2227730452, 2361852424, 2428436474, 2756734187, 3204031479, 3329325298]"

definition sha_h0 :: "u32 list" where
  "sha_h0 = [1779033703, 3144134277, 1013904242, 2773480762,
             1359893119, 2600822924, 528734635, 1541459225]"

definition ssig0 :: "u32 \<Rightarrow> u32" where "ssig0 x = rotr 7 x XOR rotr 18 x XOR drop_bit 3 x"
definition ssig1 :: "u32 \<Rightarrow> u32" where "ssig1 x = rotr 17 x XOR rotr 19 x XOR drop_bit 10 x"
definition bsig0 :: "u32 \<Rightarrow> u32" where "bsig0 x = rotr 2 x XOR rotr 13 x XOR rotr 22 x"
definition bsig1 :: "u32 \<Rightarrow> u32" where "bsig1 x = rotr 6 x XOR rotr 11 x XOR rotr 25 x"
definition ch :: "u32 \<Rightarrow> u32 \<Rightarrow> u32 \<Rightarrow> u32" where "ch x y z = (x AND y) XOR (NOT x AND z)"
definition maj :: "u32 \<Rightarrow> u32 \<Rightarrow> u32 \<Rightarrow> u32" where
  "maj x y z = (x AND y) XOR (x AND z) XOR (y AND z)"

text \<open>
  Message schedule. The list holds the words computed so far, newest first, so
  \<open>ws ! 1\<close> is W(t-2), \<open>ws ! 6\<close> is W(t-7), \<open>ws ! 14\<close> is W(t-15) and \<open>ws ! 15\<close> is W(t-16).
\<close>

fun schedule :: "nat \<Rightarrow> u32 list \<Rightarrow> u32 list" where
  "schedule 0 ws = ws"
| "schedule (Suc n) ws =
     schedule n ((ssig1 (ws ! 1) + ws ! 6 + ssig0 (ws ! 14) + ws ! 15) # ws)"

text \<open>One round on the working variables \<open>[a, b, c, d, e, f, g, h]\<close>.\<close>

definition mix :: "u32 \<Rightarrow> u32 \<Rightarrow> u32 list \<Rightarrow> u32 list" where
  "mix t1 t2 st = (t1 + t2) # take 3 st @ (st ! 3 + t1) # take 3 (drop 4 st)"

definition round1 :: "u32 \<Rightarrow> u32 \<Rightarrow> u32 list \<Rightarrow> u32 list" where
  "round1 k w st =
     mix (st ! 7 + bsig1 (st ! 4) + ch (st ! 4) (st ! 5) (st ! 6) + k + w)
         (bsig0 (st ! 0) + maj (st ! 0) (st ! 1) (st ! 2)) st"

fun rounds :: "u32 list \<Rightarrow> u32 list \<Rightarrow> u32 list \<Rightarrow> u32 list" where
  "rounds (k # ks) (w # ws) st = rounds ks ws (round1 k w st)"
| "rounds _ _ st = st"

fun be32 :: "int list \<Rightarrow> u32 list" where
  "be32 (a # b # c # d # r) = of_int (((a * 256 + b) * 256 + c) * 256 + d) # be32 r"
| "be32 _ = []"

definition compress :: "u32 list \<Rightarrow> int list \<Rightarrow> u32 list" where
  "compress hs blk = map2 (+) hs (rounds sha_k (rev (schedule 48 (rev (be32 blk)))) hs)"

fun chunks :: "nat \<Rightarrow> int list \<Rightarrow> int list list" where
  "chunks 0 bs = []"
| "chunks (Suc n) bs = take 64 bs # chunks n (drop 64 bs)"

definition be_bytes8 :: "int \<Rightarrow> int list" where
  "be_bytes8 x = map (\<lambda>i. (x div 256 ^ i) mod 256) [7, 6, 5, 4, 3, 2, 1, 0]"

definition pad :: "int list \<Rightarrow> int list" where
  "pad bs = bs @ [128] @ replicate (nat ((55 - int (length bs)) mod 64)) 0
               @ be_bytes8 (8 * int (length bs))"

definition sha256 :: "int list \<Rightarrow> u32 list" where
  "sha256 bs = foldl compress sha_h0 (chunks (length (pad bs) div 64) (pad bs))"

definition hexdigit :: "int \<Rightarrow> char" where
  "hexdigit n = ''0123456789abcdef'' ! nat n"

definition hex32 :: "u32 \<Rightarrow> string" where
  "hex32 w = map (\<lambda>i. hexdigit ((uint w div 16 ^ i) mod 16)) [7, 6, 5, 4, 3, 2, 1, 0]"

text \<open>Strings stand for their UTF-8 bytes: a \<open>char\<close> is one byte.\<close>

definition sha256_hex :: "string \<Rightarrow> string" where
  "sha256_hex s = concat (map hex32 (sha256 (map of_char s)))"

section \<open>Fingerprinter (hepconduit/fingerprint.py)\<close>

text \<open>Python's \<open>str\<close> of an integer.\<close>

fun str_nat :: "nat \<Rightarrow> string" where
  "str_nat n = (if n < 10 then [''0123456789'' ! n]
                else str_nat (n div 10) @ [''0123456789'' ! (n mod 10)])"

declare str_nat.simps [simp del]

definition str_int :: "int \<Rightarrow> string" where
  "str_int i = (if i < 0 then CHR ''-'' # str_nat (nat (- i)) else str_nat (nat i))"

text \<open>\<open>sep.join(xs)\<close>\<close>

fun join :: "string \<Rightarrow> string list \<Rightarrow> string" where
  "join sep [] = []"
| "join sep [x] = x"
| "join sep (x # y # ys) = x @ sep @ join sep (y # ys)"

text \<open>
  Python's built-in \<open>round(x)\<close> on a float: the nearest integer, a tie going to the
  even one.
\<close>

definition py_round :: "real \<Rightarrow> int" where
  "py_round x =
     (let f = \<lfloor>x\<rfloor>; d = x - of_int f
      in if d < 1 / 2 then f
         else if d > 1 / 2 then f + 1
         else if even f then f else f + 1)"

text \<open>
  \<^verbatim>\<open>
  def _quantize(x, *, abs_tol):
      if abs_tol <= 0:
          raise ValueError("abs_tol must be > 0")
      return int(round(x / abs_tol))
  \<close>
\<close>

definition quantize :: "real \<Rightarrow> real \<Rightarrow> py_error + int" where
  "quantize x tol = (if tol \<le> 0 then Inl ValueError else Inr (py_round (x / tol)))"

definition particle_graph_key :: "real particle \<Rightarrow> int \<times> int \<times> int" where
  "particle_graph_key p = (barcode p, vertex_barcode p, end_vertex_barcode p)"

text \<open>A sequence of calls that stops at the first one that raises.\<close>

fun try_map :: "('a \<Rightarrow> py_error + 'b) \<Rightarrow> 'a list \<Rightarrow> py_error + 'b list" where
  "try_map f [] = Inr []"
| "try_map f (x # xs) =
     (case f x of Inl e \<Rightarrow> Inl e
      | Inr y \<Rightarrow> (case try_map f xs of Inl e \<Rightarrow> Inl e | Inr ys \<Rightarrow> Inr (y # ys)))"

definition particle_key ::
  "real \<Rightarrow> real particle \<Rightarrow> py_error + (int \<times> int \<times> int \<times> int \<times> int \<times> int)" where
  "particle_key tol p =
     (case try_map (\<lambda>x. quantize x tol) [px p, py p, pz p, energy p] of
        Inl e \<Rightarrow> Inl e
      | Inr q \<Rightarrow> Inr (status p, pdg_id p, q ! 0, q ! 1, q ! 2, q ! 3))"

record fingerprint_config =
  version :: string
  abs_tol :: real
  include_intermediate :: bool
  include_incoming :: bool
  include_weights :: bool
  include_graph :: bool
  include_process_id :: bool

definition default_config :: fingerprint_config where
  "default_config = \<lparr> version = ''event_fingerprint_v1'', abs_tol = 1 / 10 ^ 4,
     include_intermediate = True, include_incoming = True, include_weights = False,
     include_graph = False, include_process_id = False \<rparr>"

text \<open>
  The particles that enter the projection:
  \<^verbatim>\<open>
  if p.status == 3: continue
  if p.is_incoming and not cfg.include_incoming: continue
  if p.is_intermediate and not cfg.include_intermediate: continue
  \<close>
\<close>

definition kept :: "fingerprint_config \<Rightarrow> real particle \<Rightarrow> bool" where
  "kept cfg p \<longleftrightarrow> \<not> (status p = 3)
      \<and> \<not> (status p = - 1 \<and> \<not> include_incoming cfg)
      \<and> \<not> (status p = 2 \<and> \<not> include_intermediate cfg)"

definition tuple6 :: "int \<times> int \<times> int \<times> int \<times> int \<times> int \<Rightarrow> string" where
  "tuple6 t = (case t of (a, b, c, d, e, f) \<Rightarrow> join '','' (map str_int [a, b, c, d, e, f]))"

definition tuple3 :: "int \<times> int \<times> int \<Rightarrow> string" where
  "tuple3 t = (case t of (a, b, c) \<Rightarrow> join '','' (map str_int [a, b, c]))"

text \<open>
  The bytes that \<open>fingerprint_event\<close> feeds to the hash object, in the order of its
  \<open>h.update\<close> calls. Tuples of integers sort lexicographically, as Python's do.
\<close>

definition fingerprint_payload :: "fingerprint_config \<Rightarrow> real event \<Rightarrow> py_error + string" where
  "fingerprint_payload cfg ev =
     (case try_map (particle_key (abs_tol cfg)) (filter (kept cfg) (particles ev)) of
        Inl e \<Rightarrow> Inl e
      | Inr keys \<Rightarrow>
         (let parts = sort keys;
              head = version cfg @ [CHR 0x00]
                 @ (if include_process_id cfg then str_int (process_id ev) @ [CHR 0x00] else [])
                 @ concat (map (\<lambda>t. tuple6 t @ '';'') parts);
              graph = (if include_graph cfg
                       then ''|g|'' @ concat (map (\<lambda>t. tuple3 t @ '';'')
                              (sort (map particle_graph_key
                                  (filter (\<lambda>p. status p \<noteq> 3) (particles ev)))))
                       else [])
          in if include_weights cfg \<and> weights ev \<noteq> []
             then (case try_map (\<lambda>w. quantize w (abs_tol cfg)) (weights ev) of
                     Inl e \<Rightarrow> Inl e
                   | Inr qs \<Rightarrow> Inr (head @ graph @ ''|w|''
                                       @ concat (map (\<lambda>q. str_int q @ '','') qs)))
             else Inr (head @ graph)))"

definition fingerprint_event :: "fingerprint_config \<Rightarrow> real event \<Rightarrow> py_error + string" where
  "fingerprint_event cfg ev =
     (case fingerprint_payload cfg ev of Inl e \<Rightarrow> Inl e | Inr s \<Rightarrow> Inr (sha256_hex s))"

text \<open>
  A perturbation \<open>\<delta>\<close> of one momentum component (0 = px, 1 = py, 2 = pz, 3 = energy) of
  the particle at position \<open>i\<close>.
\<close>

definition add_component :: "nat \<Rightarrow> real \<Rightarrow> real particle \<Rightarrow> real particle" where
  "add_component k d p =
     (if k = 0 then p\<lparr>px := px p + d\<rparr>
      else if k = 1 then p\<lparr>py := py p + d\<rparr>
      else if k = 2 then p\<lparr>pz := pz p + d\<rparr>
      else p\<lparr>energy := energy p + d\<rparr>)"

definition perturb :: "nat \<Rightarrow> nat \<Rightarrow> real \<Rightarrow> real event \<Rightarrow> real event" where
  "perturb i k d ev = ev\<lparr>particles := (particles ev)[i := add_component k d (particles ev ! i)]\<rparr>"

text \<open>A configuration with bucket width 1, and an event whose \<open>pz\<close> is a quarter.\<close>

definition unit_config :: fingerprint_config where
  "unit_config = default_config\<lparr>abs_tol := 1\<rparr>"

definition quarter_event :: "real event" where
  "quarter_event = event_of [photon 1 (1 / 4) 10]"

text \<open>The bytes hashed for \<open>quarter_event\<close> before and after \<open>pz\<close> moves from 1/4 to 5/8.\<close>

definition payload_a :: string where
  "payload_a = ''event_fingerprint_v1'' @ CHR 0x00 # ''1,22,0,0,0,10;''"

definition payload_b :: string where
  "payload_b = ''event_fingerprint_v1'' @ CHR 0x00 # ''1,22,0,0,1,10;''"


section \<open>Filter expressions (hepconduit/filtering.py)\<close>

text \<open>
  The tree that \<open>ast.parse(expr, mode="eval")\<close> returns. The node classes that
  \<open>_validate_ast\<close> looks into have a constructor each, with their child nodes in the
  order of the class's \<open>_fields\<close>:
  \<^item> \<open>Expression body\<close>, \<open>BoolOp op values\<close>, \<open>BinOp left op right\<close>, \<open>UnaryOp op operand\<close>,
    \<open>Compare left ops comparators\<close>, \<open>Call func args keywords\<close>, \<open>Name id ctx\<close>,
    \<open>Constant\<close> (with the literal's text), \<open>Attribute value attr ctx\<close>,
    \<open>Subscript value slice ctx\<close>;
  \<^item> \<open>Leaf cls\<close> is a node without child nodes of an operator or context class
    (\<open>And\<close>, \<open>Add\<close>, \<open>Lt\<close>, \<open>BitOr\<close>, \<open>Load\<close>, ...), named by its class;
  \<open>Other cls children\<close> is a node of any other class (\<open>Lambda\<close>, \<open>IfExp\<close>, \<open>List\<close>,
  \<open>keyword\<close>, ...), none of which is among \<open>ALLOWED_NODES\<close>.
\<close>

datatype node =
    Expression node
  | BoolOp node "node list"
  | BinOp node node node
  | UnaryOp node node
  | Compare node "node list" "node list"
  | Call node "node list" "node list"
  | Name string node
  | Constant string
  | Attribute node string node
  | Subscript node node node
  | Leaf string
  | Other string "node list"

definition ALLOWED_FUNCS :: "string list" where
  "ALLOWED_FUNCS = [''abs'', ''min'', ''max'', ''round'', ''sqrt'', ''log'', ''exp'']"

text \<open>The operator and context classes among \<open>ALLOWED_NODES\<close>.\<close>

definition allowed_leaves :: "string list" where
  "allowed_leaves = [''Load'', ''And'', ''Or'', ''Not'', ''Add'', ''Sub'', ''Mult'', ''Div'',
     ''FloorDiv'', ''Mod'', ''Pow'', ''USub'', ''UAdd'', ''Eq'', ''NotEq'', ''Lt'', ''LtE'',
     ''Gt'', ''GtE'']"

fun class_name :: "node \<Rightarrow> string" where
  "class_name (Expression _) = ''Expression''"
| "class_name (BoolOp _ _) = ''BoolOp''"
| "class_name (BinOp _ _ _) = ''BinOp''"
| "class_name (UnaryOp _ _) = ''UnaryOp''"
| "class_name (Compare _ _ _) = ''Compare''"
| "class_name (Call _ _ _) = ''Call''"
| "class_name (Name _ _) = ''Name''"
| "class_name (Constant _) = ''Constant''"
| "class_name (Attribute _ _ _) = ''Attribute''"
| "class_name (Subscript _ _ _) = ''Subscript''"
| "class_name (Leaf c) = c"
| "class_name (Other c _) = c"

text \<open>\<open>isinstance(node, ALLOWED_NODES)\<close>\<close>

fun allowed_node :: "node \<Rightarrow> bool" where
  "allowed_node (Attribute _ _ _) = False"
| "allowed_node (Subscript _ _ _) = False"
| "allowed_node (Other _ _) = False"
| "allowed_node (Leaf c) = (c \<in> set allowed_leaves)"
| "allowed_node _ = True"

text \<open>\<open>ast.iter_child_nodes\<close>\<close>

fun iter_child_nodes :: "node \<Rightarrow> node list" where
  "iter_child_nodes (Expression b) = [b]"
| "iter_child_nodes (BoolOp op vs) = op # vs"
| "iter_child_nodes (BinOp l op r) = [l, op, r]"
| "iter_child_nodes (UnaryOp op x) = [op, x]"
| "iter_child_nodes (Compare l ops cs) = l # ops @ cs"
| "iter_child_nodes (Call f args kws) = f # args @ kws"
| "iter_child_nodes (Name _ ctx) = [ctx]"
| "iter_child_nodes (Constant _) = []"
| "iter_child_nodes (Attribute v _ ctx) = [v, ctx]"
| "iter_child_nodes (Subscript v sl ctx) = [v, sl, ctx]"
| "iter_child_nodes (Leaf _) = []"
| "iter_child_nodes (Other _ cs) = cs"

text \<open>The number of nodes of a tree, the measure of the walk.\<close>

fun count_nodes :: "node \<Rightarrow> nat" where
  "count_nodes (Expression b) = Suc (count_nodes b)"
| "count_nodes (BoolOp op vs) = Suc (count_nodes op + sum_list (map count_nodes vs))"
| "count_nodes (BinOp l op r) = Suc (count_nodes l + count_nodes op + count_nodes r)"
| "count_nodes (UnaryOp op x) = Suc (count_nodes op + count_nodes x)"
| "count_nodes (Compare l ops cs) =
     Suc (count_nodes l + sum_list (map count_nodes ops) + sum_list (map count_nodes cs))"
| "count_nodes (Call f args kws) =
     Suc (count_nodes f + sum_list (map count_nodes args) + sum_list (map count_nodes kws))"
| "count_nodes (Name _ ctx) = Suc (count_nodes ctx)"
| "count_nodes (Constant _) = 1"
| "count_nodes (Attribute v _ ctx) = Suc (count_nodes v + count_nodes ctx)"
| "count_nodes (Subscript v sl ctx) = Suc (count_nodes v + count_nodes sl + count_nodes ctx)"
| "count_nodes (Leaf _) = 1"
| "count_nodes (Other _ cs) = Suc (sum_list (map count_nodes cs))"

lemma count_children: "sum_list (map count_nodes (iter_child_nodes n)) < count_nodes n"
  by (cases n) simp_all

text \<open>
  \<open>ast.walk\<close>: breadth first, from a queue.
  \<^verbatim>\<open>
  todo = deque([node])
  while todo:
      node = todo.popleft()
      todo.extend(iter_child_nodes(node))
      yield node
  \<close>
\<close>

function walk_queue :: "node list \<Rightarrow> node list" where
  "walk_queue [] = []"
| "walk_queue (n # todo) = n # walk_queue (todo @ iter_child_nodes n)"
  by pat_completeness auto
termination
  by (relation "measure (\<lambda>q. sum_list (map count_nodes q))") (simp_all add: count_children)

definition walk :: "node \<Rightarrow> node list" where
  "walk tree = walk_queue [tree]"

datatype filter_error = UnsafeFilterExpression string

definition startswith :: "string \<Rightarrow> string \<Rightarrow> bool" where
  "startswith s pre = (take (length pre) s = pre)"

text \<open>
  The body of the loop of \<open>_validate_ast\<close> for one node: the exception it raises, if any.
  \<^verbatim>\<open>
  if not isinstance(node, ALLOWED_NODES):
      raise UnsafeFilterExpression(f"Disallowed syntax: {type(node).__name__}")
  if isinstance(node, ast.Name) and node.id.startswith("__"):
      raise UnsafeFilterExpression("Dunder names are not allowed")
  if isinstance(node, ast.Call):
      if not isinstance(node.func, ast.Name):
          raise UnsafeFilterExpression("Only simple function calls are allowed")
      if node.func.id not in ALLOWED_FUNCS:
          raise UnsafeFilterExpression(f"Function not allowed: {node.func.id}")
  \<close>
\<close>

fun check_node :: "node \<Rightarrow> filter_error option" where
  "check_node n =
     (if \<not> allowed_node n
      then Some (UnsafeFilterExpression (''Disallowed syntax: '' @ class_name n))
      else (case n of
              Name ident ctx \<Rightarrow>
                if startswith ident ''__''
                then Some (UnsafeFilterExpression ''Dunder names are not allowed'')
                else None
            | Call func args kws \<Rightarrow>
                (case func of
                   Name fid fctx \<Rightarrow>
                     if fid \<notin> set ALLOWED_FUNCS
                     then Some (UnsafeFilterExpression (''Function not allowed: '' @ fid))
                     else None
                 | _ \<Rightarrow> Some (UnsafeFilterExpression ''Only simple function calls are allowed''))
            | _ \<Rightarrow> None))"

declare check_node.simps [simp del]

fun first_error :: "node list \<Rightarrow> filter_error option" where
  "first_error [] = None"
| "first_error (n # ns) = (case check_node n of Some e \<Rightarrow> Some e | None \<Rightarrow> first_error ns)"

definition validate_ast :: "node \<Rightarrow> filter_error option" where
  "validate_ast tree = first_error (walk tree)"

text \<open>\<open>CompiledFilter expr tree\<close>\<close>

datatype compiled_filter = CompiledFilter string node

text \<open>
  \<open>ast.parse\<close> belongs to the standard library and is a parameter: it returns the tree,
  or \<open>Inl\<close> the message of the SyntaxError it raises. In mode \<open>eval\<close> every statement,
  an \<open>import\<close> among them, is a SyntaxError.
  \<^verbatim>\<open>
  try:
      tree = ast.parse(expr, mode="eval")
  except SyntaxError as e:
      raise UnsafeFilterExpression(str(e)) from e
  _validate_ast(tree)
  return CompiledFilter(expr=expr, tree=tree)
  \<close>
\<close>

definition compile_filter ::
  "(string \<Rightarrow> string + node) \<Rightarrow> string \<Rightarrow> filter_error + compiled_filter" where
  "compile_filter parse expr =
     (case parse expr of
        Inl msg \<Rightarrow> Inl (UnsafeFilterExpression msg)
      | Inr tree \<Rightarrow>
          (case validate_ast tree of
             Some e \<Rightarrow> Inl e
           | None \<Rightarrow> Inr (CompiledFilter expr tree)))"

text \<open>What the claim on unsafe expressions speaks of.\<close>

fun is_attribute :: "node \<Rightarrow> bool" where
  "is_attribute (Attribute _ _ _) = True"
| "is_attribute _ = False"

fun is_subscript :: "node \<Rightarrow> bool" where
  "is_subscript (Subscript _ _ _) = True"
| "is_subscript _ = False"

fun name_with_prefix :: "string \<Rightarrow> node \<Rightarrow> bool" where
  "name_with_prefix pre (Name ident _) = startswith ident pre"
| "name_with_prefix pre _ = False"

text \<open>The tree of the expression \<open>_x > 1\<close>, and a parser that returns a given tree.\<close>

definition underscore_tree :: node where
  "underscore_tree =
     Expression (Compare (Name ''_x'' (Leaf ''Load'')) [Leaf ''Gt''] [Constant ''1''])"

definition parses_to :: "node \<Rightarrow> string \<Rightarrow> string + node" where
  "parses_to tree expr = Inr tree"

text \<open>The tree of \<open>__import__(0).system(0)\<close>.\<close>

definition import_tree :: node where
  "import_tree =
     Expression (Call (Attribute (Call (Name ''__import__'' (Leaf ''Load'')) [Constant ''0''] [])
                          ''system'' (Leaf ''Load''))
                      [Constant ''0''] [])"

section \<open>Vertex reconstruction (io/hepmc3.py and io/parquet.py)\<close>

text \<open>
  Both modules define a function \<open>_build_vertices_from_mothers\<close>. The HepMC3 writer
  calls the one of \<open>io/hepmc3.py\<close> on every event before writing it; the Parquet reader
  calls the one of \<open>io/parquet.py\<close> on every event it loaded without vertices. Both
  mutate the event in place; the models return the new event.

  A Python \<open>dict\<close> is an association list in insertion order: assigning to a key that
  is present keeps its position, assigning to a new key appends.
\<close>

fun dict_set :: "'k \<Rightarrow> 'v \<Rightarrow> ('k \<times> 'v) list \<Rightarrow> ('k \<times> 'v) list" where
  "dict_set k v [] = [(k, v)]"
| "dict_set k v ((k', v') # kvs) =
     (if k' = k then (k, v) # kvs else (k', v') # dict_set k v kvs)"

text \<open>
  The local state of the reconstruction: \<open>vtx_map\<close> (mother pair to vertex id),
  \<open>vertices\<close> (vertex id to Vertex) and the counter \<open>next_vtx\<close>.
\<close>

record 'f recon =
  vtx_map :: "((int \<times> int) \<times> int) list"
  vdict :: "(int \<times> 'f vertex) list"
  next_vtx :: int

definition recon0 :: "'f recon" where
  "recon0 = \<lparr> vtx_map = [], vdict = [], next_vtx = - 1 \<rparr>"

text \<open>\<open>Vertex(barcode=b)\<close>\<close>

definition new_vertex :: "int \<Rightarrow> ('f::zero) vertex" where
  "new_vertex b = \<lparr> vbarcode = b, vx = 0, vy = 0, vz = 0, vt = 0, incoming = [], outgoing = [] \<rparr>"

text \<open>
  \<^verbatim>\<open>
  def _vtx_for(m1, m2):            # io/hepmc3.py
      key = (m1, m2) if m1 <= m2 else (m2, m1)
      if key not in vtx_map:
          vtx_map[key] = next_vtx
          vertices[next_vtx] = Vertex(barcode=next_vtx)
          next_vtx -= 1
      return vtx_map[key]
  \<close>
  In \<open>io/parquet.py\<close> the key is \<open>(0, 0)\<close> when both mothers are 0 and the sorted pair
  otherwise.
\<close>

definition key_hepmc3 :: "int \<Rightarrow> int \<Rightarrow> int \<times> int" where
  "key_hepmc3 m1 m2 = (if m1 \<le> m2 then (m1, m2) else (m2, m1))"

definition key_parquet :: "int \<Rightarrow> int \<Rightarrow> int \<times> int" where
  "key_parquet m1 m2 =
     (if m1 = 0 \<and> m2 = 0 then (0, 0) else if m1 \<le> m2 then (m1, m2) else (m2, m1))"

definition vtx_for :: "int \<times> int \<Rightarrow> ('f::zero) recon \<Rightarrow> int \<times> 'f recon" where
  "vtx_for key st =
     (case map_of (vtx_map st) key of
        Some v \<Rightarrow> (v, st)
      | None \<Rightarrow>
          (next_vtx st,
           st\<lparr> vtx_map := dict_set key (next_vtx st) (vtx_map st),
               vdict := dict_set (next_vtx st) (new_vertex (next_vtx st)) (vdict st),
               next_vtx := next_vtx st - 1 \<rparr>))"

text \<open>
  \<^verbatim>\<open>
  for i, p in enumerate(ev.particles, start=1):
      if not p.barcode:
          p.barcode = i
  \<close>
\<close>

definition assign_barcodes :: "'f particle list \<Rightarrow> 'f particle list" where
  "assign_barcodes ps =
     map (\<lambda>(i, p). if barcode p = 0 then p\<lparr>barcode := int i\<rparr> else p) (enumerate 1 ps)"

subsection \<open>io/hepmc3.py\<close>

text \<open>
  \<^verbatim>\<open>
  for idx, p in enumerate(ev.particles, start=1):
      if p.status == -1:
          prod_vtx[idx] = 0
          p.vertex_barcode = 0
  \<close>
  The model returns the particles and the dictionary \<open>prod_vtx\<close>.
\<close>

fun mark_incoming ::
  "nat \<Rightarrow> 'f particle list \<Rightarrow> (nat \<times> int) list \<Rightarrow> 'f particle list \<times> (nat \<times> int) list" where
  "mark_incoming idx [] pv = ([], pv)"
| "mark_incoming idx (p # ps) pv =
     (if status p = - 1
      then (case mark_incoming (Suc idx) ps (dict_set idx 0 pv) of
              (ps', pv') \<Rightarrow> (p\<lparr>vertex_barcode := 0\<rparr> # ps', pv'))
      else (case mark_incoming (Suc idx) ps pv of (ps', pv') \<Rightarrow> (p # ps', pv')))"

text \<open>
  \<^verbatim>\<open>
  for idx, p in enumerate(ev.particles, start=1):
      if p.status == -1:
          continue
      m1, m2 = int(p.mother1), int(p.mother2)
      if m1 == 0 and m2 == 0:
          v_id = _vtx_for(0, 0)
      else:
          v_id = _vtx_for(m1, m2)
      prod_vtx[idx] = v_id
      p.vertex_barcode = v_id
  \<close>
\<close>

fun produce ::
  "nat \<Rightarrow> 'f particle list \<Rightarrow> ('f::zero) recon \<Rightarrow> (nat \<times> int) list
     \<Rightarrow> 'f particle list \<times> 'f recon \<times> (nat \<times> int) list" where
  "produce idx [] st pv = ([], st, pv)"
| "produce idx (p # ps) st pv =
     (if status p = - 1
      then (case produce (Suc idx) ps st pv of (ps', r) \<Rightarrow> (p # ps', r))
      else (case vtx_for (if mother1 p = 0 \<and> mother2 p = 0 then key_hepmc3 0 0
                          else key_hepmc3 (mother1 p) (mother2 p)) st of
              (v_id, st') \<Rightarrow>
                (case produce (Suc idx) ps st' (dict_set idx v_id pv) of
                   (ps', r) \<Rightarrow> (p\<lparr>vertex_barcode := v_id\<rparr> # ps', r))))"

text \<open>\<open>if x not in xs: xs.append(x)\<close>\<close>

definition append_new :: "'a \<Rightarrow> 'a list \<Rightarrow> 'a list" where
  "append_new x xs = (if x \<in> set xs then xs else xs @ [x])"

text \<open>
  \<^verbatim>\<open>
  for child_idx, p in enumerate(ev.particles, start=1):
      v_id = prod_vtx.get(child_idx, 0)
      if v_id == 0:
          continue
      v = vertices[v_id]
      for midx in {int(p.mother1), int(p.mother2)} - {0}:
          if 1 <= midx <= len(ev.particles):
              mbar = ev.particles[midx - 1].barcode
              if mbar not in v.incoming:
                  v.incoming.append(mbar)
      cbar = p.barcode
      if cbar not in v.outgoing:
          v.outgoing.append(cbar)
  \<close>
  The order in which Python iterates over a set of integers is that of its hash table;
  \<open>set_order\<close>, a parameter, turns the elements of the set into the list in that order.
  \<open>vertices[v_id]\<close> raises KeyError on a missing key.
\<close>

definition add_mothers ::
  "'f particle list \<Rightarrow> int list \<Rightarrow> 'f vertex \<Rightarrow> 'f vertex" where
  "add_mothers ps ms v =
     foldl (\<lambda>v midx. if 1 \<le> midx \<and> midx \<le> int (length ps)
                      then v\<lparr>incoming := append_new (barcode (ps ! nat (midx - 1))) (incoming v)\<rparr>
                      else v) v ms"

fun fill_vertices ::
  "(int list \<Rightarrow> int list) \<Rightarrow> 'f particle list \<Rightarrow> (nat \<times> int) list
     \<Rightarrow> (nat \<times> 'f particle) list \<Rightarrow> (int \<times> 'f vertex) list
     \<Rightarrow> py_error + (int \<times> 'f vertex) list" where
  "fill_vertices set_order ps pv [] vd = Inr vd"
| "fill_vertices set_order ps pv ((child_idx, p) # rest) vd =
     (let v_id = (case map_of pv child_idx of None \<Rightarrow> 0 | Some v \<Rightarrow> v)
      in if v_id = 0 then fill_vertices set_order ps pv rest vd
         else (case map_of vd v_id of
                 None \<Rightarrow> Inl KeyError
               | Some v \<Rightarrow>
                   (let v1 = add_mothers ps
                               (set_order (filter (\<lambda>m. m \<noteq> 0) (remdups [mother1 p, mother2 p]))) v;
                        v2 = v1\<lparr>outgoing := append_new (barcode p) (outgoing v1)\<rparr>
                    in fill_vertices set_order ps pv rest (dict_set v_id v2 vd))))"

text \<open>
  \<^verbatim>\<open>
  incoming_to_vtx = {}
  for vid, v in vertices.items():
      for inc in v.incoming:
          incoming_to_vtx[inc] = vid
  for p in ev.particles:
      p.end_vertex_barcode = incoming_to_vtx.get(p.barcode, 0)
  ev.vertices = [vertices[k] for k in sorted(vertices.keys())]
  \<close>
\<close>

definition incoming_to_vtx :: "(int \<times> 'f vertex) list \<Rightarrow> (int \<times> int) list" where
  "incoming_to_vtx vd =
     foldl (\<lambda>m (vid, v). foldl (\<lambda>m inc. dict_set inc vid m) m (incoming v)) [] vd"

definition sorted_vertices :: "(int \<times> 'f vertex) list \<Rightarrow> 'f vertex list" where
  "sorted_vertices vd = map snd (sort_key fst vd)"

definition build_vertices_hepmc3 ::
  "(int list \<Rightarrow> int list) \<Rightarrow> ('f::zero) event \<Rightarrow> py_error + 'f event" where
  "build_vertices_hepmc3 set_order ev =
     (if vertices ev \<noteq> [] then Inr ev
      else (let ps0 = assign_barcodes (particles ev)
            in case mark_incoming 1 ps0 [] of
                 (ps1, pv1) \<Rightarrow>
                   (case produce 1 ps1 recon0 pv1 of
                      (ps2, st, pv2) \<Rightarrow>
                        (case fill_vertices set_order ps2 pv2 (enumerate 1 ps2) (vdict st) of
                           Inl e \<Rightarrow> Inl e
                         | Inr vd \<Rightarrow>
                             (let i2v = incoming_to_vtx vd;
                                  ps3 = map (\<lambda>p. p\<lparr>end_vertex_barcode :=
                                                (case map_of i2v (barcode p) of None \<Rightarrow> 0
                                                 | Some v \<Rightarrow> v)\<rparr>) ps2
                              in Inr (ev\<lparr>particles := ps3, vertices := sorted_vertices vd\<rparr>))))))"

subsection \<open>io/parquet.py\<close>

text \<open>
  \<^verbatim>\<open>
  for p in ev.particles:
      m1, m2 = int(p.mother1 or 0), int(p.mother2 or 0)
      vtx = _vtx_for(m1, m2)
      p.vertex_barcode = vtx
      vertices[vtx].outgoing.append(int(p.barcode))
  \<close>
\<close>

fun assign_all ::
  "'f particle list \<Rightarrow> ('f::zero) recon \<Rightarrow> py_error + 'f particle list \<times> 'f recon" where
  "assign_all [] st = Inr ([], st)"
| "assign_all (p # ps) st =
     (case vtx_for (key_parquet (mother1 p) (mother2 p)) st of
        (vtx, st1) \<Rightarrow>
          (case map_of (vdict st1) vtx of
             None \<Rightarrow> Inl KeyError
           | Some v \<Rightarrow>
               (case assign_all ps
                       (st1\<lparr>vdict := dict_set vtx (v\<lparr>outgoing := outgoing v @ [barcode p]\<rparr>)
                                        (vdict st1)\<rparr>) of
                  Inl e \<Rightarrow> Inl e
                | Inr (ps', st2) \<Rightarrow> Inr (p\<lparr>vertex_barcode := vtx\<rparr> # ps', st2))))"

text \<open>
  \<^verbatim>\<open>
  for p in ev.particles:
      vtx = int(p.vertex_barcode or 0)
      if vtx == 0:
          continue
      m1, m2 = int(p.mother1 or 0), int(p.mother2 or 0)
      for midx in (m1, m2):
          if midx and 1 <= midx <= len(ev.particles):
              mother = ev.particles[midx - 1]
              vertices[vtx].incoming.append(int(mother.barcode))
              mother.end_vertex_barcode = vtx
  \<close>
  The loop writes to particles of the list it runs over; the model runs over the
  positions and carries the list.
\<close>

definition link_mother ::
  "int \<Rightarrow> int \<Rightarrow> 'f particle list \<times> (int \<times> 'f vertex) list
     \<Rightarrow> py_error + 'f particle list \<times> (int \<times> 'f vertex) list" where
  "link_mother vtx midx s =
     (case s of (ps, vd) \<Rightarrow>
        if midx \<noteq> 0 \<and> 1 \<le> midx \<and> midx \<le> int (length ps)
        then (let mother = ps ! nat (midx - 1)
              in case map_of vd vtx of
                   None \<Rightarrow> Inl KeyError
                 | Some v \<Rightarrow>
                     Inr (ps[nat (midx - 1) := mother\<lparr>end_vertex_barcode := vtx\<rparr>],
                          dict_set vtx (v\<lparr>incoming := incoming v @ [barcode mother]\<rparr>) vd))
        else Inr s)"

fun link_all ::
  "nat list \<Rightarrow> 'f particle list \<times> (int \<times> 'f vertex) list
     \<Rightarrow> py_error + 'f particle list \<times> (int \<times> 'f vertex) list" where
  "link_all [] s = Inr s"
| "link_all (i # is) s =
     (let p = fst s ! i; vtx = vertex_barcode p
      in if vtx = 0 then link_all is s
         else (case link_mother vtx (mother1 p) s of
                 Inl e \<Rightarrow> Inl e
               | Inr s1 \<Rightarrow>
                   (case link_mother vtx (mother2 p) s1 of
                      Inl e \<Rightarrow> Inl e
                    | Inr s2 \<Rightarrow> link_all is s2)))"

text \<open>
  \<^verbatim>\<open>
  for v in vertices.values():
      v.incoming = sorted(set(v.incoming))
      v.outgoing = sorted(set(v.outgoing))
  ev.vertices = [vertices[k] for k in sorted(vertices.keys())]
  \<close>
\<close>

definition build_vertices_parquet :: "('f::zero) event \<Rightarrow> py_error + 'f event" where
  "build_vertices_parquet ev =
     (if vertices ev \<noteq> [] then Inr ev
      else (case assign_all (assign_barcodes (particles ev)) recon0 of
              Inl e \<Rightarrow> Inl e
            | Inr (ps1, st) \<Rightarrow>
                (case link_all [0..<length ps1] (ps1, vdict st) of
                   Inl e \<Rightarrow> Inl e
                 | Inr (ps2, vd) \<Rightarrow>
                     Inr (ev\<lparr>particles := ps2,
                             vertices := sorted_vertices
                               (map (\<lambda>(k, v). (k, v\<lparr>incoming := sort (remdups (incoming v)),
                                                     outgoing := sort (remdups (outgoing v))\<rparr>))
                                    vd)\<rparr>))))"

text \<open>Two incoming photons and a final-state one whose mothers are the first two.\<close>

definition collision :: "real event" where
  "collision = event_of [photon (- 1) 10 10, photon (- 1) (- 10) 10,
                         (photon 1 0 20)\<lparr>mother1 := 1, mother2 := 2\<rparr>]"

text \<open>Every incoming particle (status -1) of the list has production vertex 0.\<close>

definition incoming_void :: "'f particle list \<Rightarrow> bool" where
  "incoming_void ps \<longleftrightarrow> (\<forall>p \<in> set ps. status p = - 1 \<longrightarrow> vertex_barcode p = 0)"

section \<open>Text to numbers (Python's \<open>str.split\<close>, \<open>int\<close> and \<open>float\<close>)\<close>

text \<open>
  The readers cut a line into fields with \<open>line.split()\<close> and convert the fields with
  \<open>int(..)\<close> and \<open>float(..)\<close>, which raise ValueError on text that is no number.
  Characters are bytes here, so the whitespace and the digits are the ASCII ones.
\<close>

definition code :: "char \<Rightarrow> nat" where
  "code c = of_char c"

definition is_space :: "char \<Rightarrow> bool" where
  "is_space c \<longleftrightarrow> (9 \<le> code c \<and> code c \<le> 13) \<or> (28 \<le> code c \<and> code c \<le> 32)"

definition is_digit :: "char \<Rightarrow> bool" where
  "is_digit c \<longleftrightarrow> 48 \<le> code c \<and> code c \<le> 57"

definition is_word_char :: "char \<Rightarrow> bool" where
  "is_word_char c \<longleftrightarrow> is_digit c \<or> (65 \<le> code c \<and> code c \<le> 90)
      \<or> (97 \<le> code c \<and> code c \<le> 122) \<or> c = CHR ''_''"

definition lower :: "char \<Rightarrow> char" where
  "lower c = (case map_of (zip ''ABCDEFGHIJKLMNOPQRSTUVWXYZ'' ''abcdefghijklmnopqrstuvwxyz'') c of
                Some d \<Rightarrow> d | None \<Rightarrow> c)"

text \<open>\<open>s.strip()\<close>\<close>

definition strip :: "string \<Rightarrow> string" where
  "strip s = rev (dropWhile is_space (rev (dropWhile is_space s)))"

text \<open>\<open>s.split()\<close>: the maximal runs of characters that are not whitespace.\<close>

fun split_acc :: "string \<Rightarrow> string \<Rightarrow> string list" where
  "split_acc cur [] = (if cur = [] then [] else [cur])"
| "split_acc cur (c # cs) =
     (if is_space c then (if cur = [] then split_acc [] cs else cur # split_acc [] cs)
      else split_acc (cur @ [c]) cs)"

definition split :: "string \<Rightarrow> string list" where
  "split s = split_acc [] s"

text \<open>
  A group of digits in which single underscores may separate digits (PEP 515); the result
  is the digits without the underscores.
\<close>

fun digitpart :: "string \<Rightarrow> string option" where
  "digitpart [] = None"
| "digitpart [c] = (if is_digit c then Some [c] else None)"
| "digitpart (c # d # cs) =
     (if \<not> is_digit c then None
      else if d = CHR ''_'' then map_option ((#) c) (digitpart cs)
      else map_option ((#) c) (digitpart (d # cs)))"

definition digits_value :: "string \<Rightarrow> int" where
  "digits_value ds = foldl (\<lambda>a c. 10 * a + (int (code c) - 48)) 0 ds"

text \<open>An optional sign: whether it is a minus, and the rest.\<close>

fun take_sign :: "string \<Rightarrow> bool \<times> string" where
  "take_sign [] = (False, [])"
| "take_sign (c # cs) =
     (if c = CHR ''-'' then (True, cs) else if c = CHR ''+'' then (False, cs) else (False, c # cs))"

text \<open>\<open>int(s)\<close> for a string \<open>s\<close>.\<close>

definition py_int :: "string \<Rightarrow> py_error + int" where
  "py_int s =
     (case take_sign (strip s) of (neg, body) \<Rightarrow>
        (case digitpart body of
           None \<Rightarrow> Inl ValueError
         | Some ds \<Rightarrow> Inr (if neg then - digits_value ds else digits_value ds)))"

text \<open>
  The mantissa and the decimal exponent of a float literal without sign: an integer part
  and a fraction around an optional point, at least one of them, and an optional
  exponent after \<open>e\<close> or \<open>E\<close>.
\<close>

definition mantissa :: "string \<Rightarrow> (int \<times> int) option" where
  "mantissa s =
     (let ip = takeWhile (\<lambda>c. c \<noteq> CHR ''.'') s;
          rest = dropWhile (\<lambda>c. c \<noteq> CHR ''.'') s
      in if rest = [] then map_option (\<lambda>ds. (digits_value ds, 0)) (digitpart ip)
         else (let fp = tl rest;
                   i = (if ip = [] then Some [] else digitpart ip);
                   f = (if fp = [] then Some [] else digitpart fp)
               in if ip = [] \<and> fp = [] then None
                  else (case (i, f) of
                          (Some ids, Some fds) \<Rightarrow>
                            Some (digits_value (ids @ fds), - int (length fds))
                        | _ \<Rightarrow> None)))"

definition exponent :: "string \<Rightarrow> int option" where
  "exponent s =
     (case take_sign s of (neg, body) \<Rightarrow>
        map_option (\<lambda>ds. if neg then - digits_value ds else digits_value ds) (digitpart body))"

definition decimal :: "string \<Rightarrow> (int \<times> int) option" where
  "decimal s =
     (let mp = takeWhile (\<lambda>c. lower c \<noteq> CHR ''e'') s;
          rest = dropWhile (\<lambda>c. lower c \<noteq> CHR ''e'') s
      in if rest = [] then mantissa mp
         else (case (mantissa mp, exponent (tl rest)) of
                 (Some (m, k), Some e) \<Rightarrow> Some (m, k + e)
               | _ \<Rightarrow> None))"

text \<open>The real number \<open>m \<cdot> 10^e\<close>.\<close>

definition scale10 :: "int \<Rightarrow> int \<Rightarrow> real" where
  "scale10 m e = (if e \<ge> 0 then of_int m * 10 ^ nat e else of_int m / 10 ^ nat (- e))"

text \<open>
  \<open>float(s)\<close> for a string \<open>s\<close>: a decimal literal, or \<open>inf\<close>, \<open>infinity\<close> or \<open>nan\<close> in
  any case, with an optional sign. The value of a decimal literal is the real number it
  denotes (rounding to binary64 is not modelled).
\<close>

definition py_float :: "string \<Rightarrow> py_error + pyfloat" where
  "py_float s =
     (case take_sign (strip s) of (neg, body) \<Rightarrow>
        (let w = map lower body
         in if w = ''inf'' \<or> w = ''infinity'' then Inr (if neg then NegInf else PosInf)
            else if w = ''nan'' then Inr NaN
            else (case decimal body of
                    None \<Rightarrow> Inl ValueError
                  | Some (m, e) \<Rightarrow> Inr (Fin (scale10 (if neg then - m else m) e)))))"

text \<open>\<open>int(cols[i])\<close> and \<open>float(cols[i])\<close>\<close>

definition int_at :: "string list \<Rightarrow> nat \<Rightarrow> py_error + int" where
  "int_at cols i = bind (py_index cols i) py_int"

definition float_at :: "string list \<Rightarrow> nat \<Rightarrow> py_error + pyfloat" where
  "float_at cols i = bind (py_index cols i) py_float"

section \<open>HepMC3 reader: the P record (io/hepmc3.py)\<close>

text \<open>
  \<open>iter_hepmc3_with_runinfo\<close> handles a \<open>P\<close> line of an open event as follows
  (\<open>parts = line.split()\<close>); \<open>continue\<close> drops the record.
  \<^verbatim>\<open>
  if len(parts) < 9:
      continue
  try:
      bc = int(parts[1]); pdg = int(parts[2]); st = int(parts[3])
      px, py, pz = float(parts[4]), float(parts[5]), float(parts[6])
      e, m = float(parts[7]), float(parts[8])
  except Exception:
      continue
  pv = 0; ev = 0
  if len(parts) >= 11:
      try:
          pv = int(parts[9]); ev = int(parts[10])
      except Exception:
          pv = 0; ev = 0
  mapped_status = st
  if st in (4,):   mapped_status = -1
  elif st in (1,): mapped_status = 1
  elif st in (2, 3): mapped_status = 2
  p = Particle(pdg_id=pdg, status=mapped_status, px=px, py=py, pz=pz, energy=e, mass=m,
               barcode=bc, vertex_barcode=pv, end_vertex_barcode=ev)
  if mapped_status != st:
      p.attributes["hepmc_status_raw"] = st
  \<close>
\<close>

definition map_status :: "int \<Rightarrow> int" where
  "map_status st = (if st = 4 then - 1 else if st = 1 then 1 else if st = 2 \<or> st = 3 then 2 else st)"

definition vertex_ids :: "string list \<Rightarrow> int \<times> int" where
  "vertex_ids parts =
     (if length parts \<ge> 11
      then (case bind (int_at parts 9) (\<lambda>pv. bind (int_at parts 10) (\<lambda>ev. Inr (pv, ev))) of
              Inl e \<Rightarrow> (0, 0)
            | Inr r \<Rightarrow> r)
      else (0, 0))"

definition hepmc3_particle :: "string list \<Rightarrow> pyfloat particle option" where
  "hepmc3_particle parts =
     (if length parts < 9 then None
      else (case bind (int_at parts 1) (\<lambda>bc.
                 bind (int_at parts 2) (\<lambda>pdg.
                 bind (int_at parts 3) (\<lambda>st.
                 bind (float_at parts 4) (\<lambda>p_x.
                 bind (float_at parts 5) (\<lambda>p_y.
                 bind (float_at parts 6) (\<lambda>p_z.
                 bind (float_at parts 7) (\<lambda>e.
                 bind (float_at parts 8) (\<lambda>m.
                   Inr \<lparr> pdg_id = pdg, status = map_status st, px = p_x, py = p_y, pz = p_z,
                         energy = e, mass = m, mother1 = 0, mother2 = 0, color1 = 0, color2 = 0,
                         spin = Fin 9, barcode = bc,
                         vertex_barcode = fst (vertex_ids parts),
                         end_vertex_barcode = snd (vertex_ids parts),
                         attributes = (if map_status st \<noteq> st
                                       then [(''hepmc_status_raw'', JInt st)] else []) \<rparr>))))))))
            of Inl e \<Rightarrow> None | Inr p \<Rightarrow> Some p))"

text \<open>The record \<open>P 1 22 5 0 0 10 10 0\<close>, of raw status 5.\<close>

definition status5_record :: "string list" where
  "status5_record = split ''P 1 22 5 0 0 10 10 0''"

text \<open>The record \<open>P 1 2212 4 0 0 6500 6500 0.938\<close>, a beam particle.\<close>

definition beam_record :: "string list" where
  "beam_record = split ''P 1 2212 4 0 0 6500 6500 0.938''"

section \<open>LHE reader (io/lhe.py)\<close>

text \<open>
  \<open>_parse_event_block(lines, event_number)\<close>. The header is the first line that is
  neither blank nor a comment:
  \<^verbatim>\<open>
  header = None; idx = 0
  while idx < len(lines):
      s = lines[idx].strip(); idx += 1
      if not s or s.startswith("#"): continue
      header = s; break
  if header is None:
      return Event(event_number=event_number)
  \<close>
  The model returns the header with the lines that follow it.
\<close>

definition skipped :: "string \<Rightarrow> bool" where
  "skipped s \<longleftrightarrow> s = [] \<or> startswith s ''#''"

fun find_header :: "string list \<Rightarrow> (string \<times> string list) option" where
  "find_header [] = None"
| "find_header (l # ls) = (if skipped (strip l) then find_header ls else Some (strip l, ls))"

text \<open>
  One particle row, \<open>cols = s.split()\<close>; the conversions run in this order and the first
  that fails raises (ValueError from \<open>int\<close> or \<open>float\<close>, IndexError from \<open>cols[i]\<close>).
  \<^verbatim>\<open>
  pdg_id = int(cols[0]); status = int(cols[1])
  mother1 = int(cols[2]); mother2 = int(cols[3])
  c1 = int(cols[4]); c2 = int(cols[5])
  px = float(cols[6]); py = float(cols[7]); pz = float(cols[8])
  e = float(cols[9]); m = float(cols[10])
  spin = float(cols[12]) if len(cols) > 12 else 9.0
  \<close>
\<close>

definition parse_row :: "string list \<Rightarrow> py_error + pyfloat particle" where
  "parse_row cols =
     bind (int_at cols 0) (\<lambda>pdg.
     bind (int_at cols 1) (\<lambda>st.
     bind (int_at cols 2) (\<lambda>m1.
     bind (int_at cols 3) (\<lambda>m2.
     bind (int_at cols 4) (\<lambda>c1.
     bind (int_at cols 5) (\<lambda>c2.
     bind (float_at cols 6) (\<lambda>p_x.
     bind (float_at cols 7) (\<lambda>p_y.
     bind (float_at cols 8) (\<lambda>p_z.
     bind (float_at cols 9) (\<lambda>e.
     bind (float_at cols 10) (\<lambda>m.
     bind (if length cols > 12 then float_at cols 12 else Inr (Fin 9)) (\<lambda>sp.
       Inr \<lparr> pdg_id = pdg, status = st, px = p_x, py = p_y, pz = p_z, energy = e, mass = m,
             mother1 = m1, mother2 = m2, color1 = c1, color2 = c2, spin = sp, barcode = 0,
             vertex_barcode = 0, end_vertex_barcode = 0, attributes = [] \<rparr>))))))))))))"

text \<open>
  The particle loop. Each of the \<open>nup\<close> iterations consumes one line; a blank line or a
  comment uses its iteration up (\<open>i -= 1\<close> does not change the next value of \<open>i\<close>).
  \<^verbatim>\<open>
  for i in range(nup):
      if idx >= len(lines): break
      s = lines[idx].strip(); idx += 1
      if not s or s.startswith("#"):
          i -= 1
          continue
      cols = s.split()
      ...
      particles.append(Particle(...))
  \<close>
\<close>

fun parse_particles :: "nat \<Rightarrow> string list \<Rightarrow> py_error + pyfloat particle list" where
  "parse_particles 0 ls = Inr []"
| "parse_particles (Suc n) [] = Inr []"
| "parse_particles (Suc n) (l # ls) =
     (if skipped (strip l) then parse_particles n ls
      else bind (parse_row (split (strip l))) (\<lambda>p.
           bind (parse_particles n ls) (\<lambda>ps. Inr (p # ps))))"

text \<open>
  \<^verbatim>\<open>
  hp = header.split()
  nup = int(hp[0])
  process_id = int(hp[1]) if len(hp) > 1 else 0
  weight = float(hp[2]) if len(hp) > 2 else 1.0
  scale = float(hp[3]) if len(hp) > 3 else 0.0
  aqed = float(hp[4]) if len(hp) > 4 else 0.0
  aqcd = float(hp[5]) if len(hp) > 5 else 0.0
  ...
  return Event(event_number=event_number, particles=particles, process_id=process_id,
               scale=scale, alpha_qed=aqed, alpha_qcd=aqcd, weights=[weight], n_particles=nup)
  \<close>
\<close>

definition default_event :: "int \<Rightarrow> pyfloat event" where
  "default_event n = \<lparr> event_number = n, particles = [], vertices = [], weights = [Fin 1],
     process_id = 0, scale = Fin 0, alpha_qed = Fin 0, alpha_qcd = Fin 0, n_particles = 0,
     extra = [] \<rparr>"

definition parse_event_block :: "string list \<Rightarrow> int \<Rightarrow> py_error + pyfloat event" where
  "parse_event_block lines evno =
     (case find_header lines of
        None \<Rightarrow> Inr (default_event evno)
      | Some (header, rest) \<Rightarrow>
          (let hp = split header
           in bind (int_at hp 0) (\<lambda>nup.
              bind (if length hp > 1 then int_at hp 1 else Inr 0) (\<lambda>pid.
              bind (if length hp > 2 then float_at hp 2 else Inr (Fin 1)) (\<lambda>w.
              bind (if length hp > 3 then float_at hp 3 else Inr (Fin 0)) (\<lambda>sc.
              bind (if length hp > 4 then float_at hp 4 else Inr (Fin 0)) (\<lambda>aqed.
              bind (if length hp > 5 then float_at hp 5 else Inr (Fin 0)) (\<lambda>aqcd.
              bind (parse_particles (nat nup) rest) (\<lambda>ps.
                Inr \<lparr> event_number = evno, particles = ps, vertices = [], weights = [w],
                      process_id = pid, scale = sc, alpha_qed = aqed, alpha_qcd = aqcd,
                      n_particles = nup, extra = [] \<rparr>)))))))))"

text \<open>
  \<open>iter_lhe\<close> on the lines of the file. The regular expression \<open><event\b\<close> matches
  \<open><event\<close> where no word character follows; \<open></event>\<close> matches anywhere in a line.
  \<^verbatim>\<open>
  in_event = False; buf = []; event_no = 0
  for line in f:
      if not in_event:
          if _TAG_EVENT_OPEN.search(line):
              in_event = True; buf = []
          continue
      else:
          if _TAG_EVENT_CLOSE.search(line):
              event_no += 1
              ev = _parse_event_block(buf, event_no)
              yield ev
              in_event = False; buf = []
          else:
              buf.append(line)
  \<close>
  The generator yields events until a block raises; the model returns the events yielded
  and the exception, if any, that ends the iteration.
\<close>

fun event_open :: "string \<Rightarrow> bool" where
  "event_open [] = False"
| "event_open (c # cs) =
     ((startswith (c # cs) ''<event''
         \<and> (case drop 6 (c # cs) of [] \<Rightarrow> True | d # _ \<Rightarrow> \<not> is_word_char d))
      \<or> event_open cs)"

fun event_close :: "string \<Rightarrow> bool" where
  "event_close [] = False"
| "event_close (c # cs) = (startswith (c # cs) ''</event>'' \<or> event_close cs)"

fun lhe_loop ::
  "bool \<Rightarrow> string list \<Rightarrow> int \<Rightarrow> string list \<Rightarrow> pyfloat event list \<times> py_error option" where
  "lhe_loop in_event buf event_no [] = ([], None)"
| "lhe_loop in_event buf event_no (line # rest) =
     (if \<not> in_event
      then (if event_open line then lhe_loop True [] event_no rest
            else lhe_loop False buf event_no rest)
      else (if event_close line
            then (case parse_event_block buf (event_no + 1) of
                    Inl e \<Rightarrow> ([], Some e)
                  | Inr ev \<Rightarrow>
                      (case lhe_loop False [] (event_no + 1) rest of
                         (evs, r) \<Rightarrow> (ev # evs, r)))
            else lhe_loop True (buf @ [line]) event_no rest))"

definition iter_lhe :: "string list \<Rightarrow> pyfloat event list \<times> py_error option" where
  "iter_lhe file_lines = lhe_loop False [] 0 file_lines"

text \<open>
  The event of the repository's fixture \<open>tests/fixtures/edge_cases.lhe\<close> (written by
  \<open>tests/conftest.py\<close>), and the same event with the exponents in Python's notation and
  without the comment lines.
\<close>

definition edge_case_file :: "string list" where
  "edge_case_file =
    [''<event>'',
     ''# Header with fewer cols is seen in the wild'',
     ''2 42 1.0'',
     ''# Particle lines with Fortran D exponents and extra spaces'',
     ''  22 1 0 0 0 0  0.0 0.0 1.0D+01 1.0D+01 0.0 0 9'',
     ''  22 1 0 0 0 0  0.0 0.0 -1.0D+01 1.0D+01 0.0 0 9'',
     ''# Generator-specific per-event trailer line(s) sometimes appear here'',
     ''some_generator_token 123 4.5D+00'',
     ''<weights>'',
     ''  <weight id='nominal'> 1.0 </weight>'',
     ''  <weight id='pdf_alt'> 0.8 </weight>'',
     ''</weights>'',
     ''<rwgt>'',
     ''  <wgt id=\"mur=0.5_muf=0.5\"> 0.9 </wgt>'',
     ''  <wgt id=\"mur=2.0_muf=2.0\"> 1.1 </wgt>'',
     ''</rwgt>'',
     ''</event>'']"

definition weights_block :: "string list" where
  "weights_block =
    [''2 42 1.0'',
     ''  22 1 0 0 0 0  0.0 0.0 1.0E+01 1.0E+01 0.0 0 9'',
     ''  22 1 0 0 0 0  0.0 0.0 -1.0E+01 1.0E+01 0.0 0 9'',
     ''<weights>'',
     ''  <weight id='nominal'> 1.0 </weight>'',
     ''  <weight id='pdf_alt'> 0.8 </weight>'',
     ''</weights>'',
     ''<rwgt>'',
     ''  <wgt id=\"mur=0.5_muf=0.5\"> 0.9 </wgt>'',
     ''  <wgt id=\"mur=2.0_muf=2.0\"> 1.1 </wgt>'',
     ''</rwgt>'']"

text \<open>An event whose second particle row has the text \<open>abc\<close> for \<open>pz\<close>.\<close>

definition malformed_block :: "string list" where
  "malformed_block =
    [''2 42 1.0'',
     ''  22 1 0 0 0 0  0.0 0.0 1.0E+01 1.0E+01 0.0 0 9'',
     ''  22 1 0 0 0 0  0.0 0.0 abc 1.0E+01 0.0 0 9'']"

text \<open>The particle that the reader builds from \<open>beam_record\<close>.\<close>

definition beam_particle :: "pyfloat particle" where
  "beam_particle = \<lparr> pdg_id = 2212, status = - 1, px = Fin 0, py = Fin 0, pz = Fin 6500,
     energy = Fin 6500, mass = Fin (469 / 500), mother1 = 0, mother2 = 0, color1 = 0,
     color2 = 0, spin = Fin 9, barcode = 1, vertex_barcode = 0, end_vertex_barcode = 0,
     attributes = [(''hepmc_status_raw'', JInt 4)] \<rparr>"

section \<open>Loss accounting and the conversion report (audit.py, provenance.py, convert.py)\<close>

subsection \<open>Deterministic JSON\<close>

text \<open>
  \<open>stable_json_dumps(obj) = json.dumps(obj, sort_keys=True, separators=(",", ":"),
  ensure_ascii=False)\<close>: the keys of every dictionary in ascending order, no blanks, and
  strings escaped as JSON requires (quote, backslash and the control characters).
\<close>

definition escape_char :: "char \<Rightarrow> string" where
  "escape_char c =
     (if c = CHR 0x22 then [CHR 0x5C, CHR 0x22]
      else if c = CHR 0x5C then [CHR 0x5C, CHR 0x5C]
      else if c = CHR 0x0A then [CHR 0x5C, CHR ''n'']
      else if c = CHR 0x0D then [CHR 0x5C, CHR ''r'']
      else if c = CHR 0x09 then [CHR 0x5C, CHR ''t'']
      else if c = CHR 0x08 then [CHR 0x5C, CHR ''b'']
      else if c = CHR 0x0C then [CHR 0x5C, CHR ''f'']
      else if code c < 32
      then [CHR 0x5C, CHR ''u'', CHR ''0'', CHR ''0'',
            hexdigit (int (code c) div 16), hexdigit (int (code c) mod 16)]
      else [c])"

definition json_string :: "string \<Rightarrow> string" where
  "json_string s = CHR 0x22 # concat (map escape_char s) @ [CHR 0x22]"

fun dumps :: "json \<Rightarrow> string" where
  "dumps JNull = ''null''"
| "dumps (JBool b) = (if b then ''true'' else ''false'')"
| "dumps (JInt i) = str_int i"
| "dumps (JStr s) = json_string s"
| "dumps (JList xs) = ''['' @ join '','' (map dumps xs) @ '']''"
| "dumps (JDict kvs) =
     ''{'' @ join '',''
               (map (\<lambda>(k, s). json_string k @ '':'' @ s)
                    (sort_key fst (map (\<lambda>(k, v). (k, dumps v)) kvs)))
          @ ''}''"

definition stable_json_dumps :: "json \<Rightarrow> string" where
  "stable_json_dumps obj = dumps obj"

subsection \<open>Capabilities and the loss plan (audit.py)\<close>

record capabilities =
  particle_fields :: "string list"
  event_fields :: "string list"
  run_fields :: "string list"

definition CAPABILITIES :: "(string \<times> capabilities) list" where
  "CAPABILITIES =
    [(''lhe'', \<lparr> particle_fields = [''pdg_id'', ''status'', ''mother1'', ''mother2'', ''color1'',
          ''color2'', ''px'', ''py'', ''pz'', ''energy'', ''mass'', ''spin''],
        event_fields = [''event_number'', ''weights'', ''process_id'', ''scale'', ''alpha_qed'',
          ''alpha_qcd''],
        run_fields = [''beam_pdg_id'', ''beam_energy'', ''weight_names'', ''processes'',
          ''generator_name'', ''generator_version'', ''extra''] \<rparr>),
     (''hepmc3'', \<lparr> particle_fields = [''pdg_id'', ''status'', ''px'', ''py'', ''pz'', ''energy'',
          ''mass'', ''barcode'', ''vertex_barcode'', ''end_vertex_barcode'', ''attributes''],
        event_fields = [''event_number'', ''weights'', ''extra''],
        run_fields = [''beam_pdg_id'', ''beam_energy'', ''weight_names'', ''generator_name'',
          ''generator_version'', ''extra''] \<rparr>),
     (''csv'', \<lparr> particle_fields = [''pdg_id'', ''status'', ''mother1'', ''mother2'', ''color1'',
          ''color2'', ''px'', ''py'', ''pz'', ''energy'', ''mass'', ''spin'', ''barcode'',
          ''vertex_barcode'', ''end_vertex_barcode''],
        event_fields = [''event_number''],
        run_fields = [] \<rparr>),
     (''tsv'', \<lparr> particle_fields = [''pdg_id'', ''status'', ''mother1'', ''mother2'', ''color1'',
          ''color2'', ''px'', ''py'', ''pz'', ''energy'', ''mass'', ''spin'', ''barcode'',
          ''vertex_barcode'', ''end_vertex_barcode''],
        event_fields = [''event_number''],
        run_fields = [] \<rparr>),
     (''parquet'', \<lparr> particle_fields = [''pdg_id'', ''status'', ''mother1'', ''mother2'',
          ''color1'', ''color2'', ''px'', ''py'', ''pz'', ''energy'', ''mass'', ''spin'', ''barcode'',
          ''vertex_barcode'', ''end_vertex_barcode'', ''attributes''],
        event_fields = [''event_number'', ''weights'', ''process_id'', ''scale'', ''alpha_qed'',
          ''alpha_qcd'', ''extra''],
        run_fields = [''beam_pdg_id'', ''beam_energy'', ''weight_names'', ''processes'',
          ''generator_name'', ''generator_version'', ''extra''] \<rparr>)]"

definition format_capabilities :: "string \<Rightarrow> capabilities" where
  "format_capabilities fmt =
     (case map_of CAPABILITIES fmt of
        Some c \<Rightarrow> c
      | None \<Rightarrow> \<lparr> particle_fields = [], event_fields = [], run_fields = [] \<rparr>)"

text \<open>\<open>sorted(set(a) - set(b))\<close>\<close>

definition sorted_difference :: "string list \<Rightarrow> string list \<Rightarrow> string list" where
  "sorted_difference a b = sort (remdups (filter (\<lambda>x. x \<notin> set b) a))"

record plan =
  input_format :: string
  output_format :: string
  dropped_particle_fields :: "string list"
  dropped_event_fields :: "string list"
  dropped_run_fields :: "string list"

definition loss_plan :: "string \<Rightarrow> string \<Rightarrow> plan" where
  "loss_plan src_fmt dst_fmt =
     (let ic = format_capabilities src_fmt; oc = format_capabilities dst_fmt
      in \<lparr> input_format = src_fmt, output_format = dst_fmt,
           dropped_particle_fields = sorted_difference (particle_fields ic) (particle_fields oc),
           dropped_event_fields = sorted_difference (event_fields ic) (event_fields oc),
           dropped_run_fields = sorted_difference (run_fields ic) (run_fields oc) \<rparr>)"

text \<open>The plan as the dictionary that the code builds.\<close>

definition plan_json :: "plan \<Rightarrow> json" where
  "plan_json p = JDict
     [(''input_format'', JStr (input_format p)),
      (''output_format'', JStr (output_format p)),
      (''dropped_particle_fields'', JList (map JStr (dropped_particle_fields p))),
      (''dropped_event_fields'', JList (map JStr (dropped_event_fields p))),
      (''dropped_run_fields'', JList (map JStr (dropped_run_fields p)))]"

subsection \<open>The loss observer (audit.py)\<close>

record loss_counter =
  dropped_fields :: "(string \<times> int) list"
  dropped_weights :: int
  dropped_runinfo_keys :: "(string \<times> int) list"
  loss_examples :: "(string \<times> json list) list"

definition LossCounter :: loss_counter where
  "LossCounter = \<lparr> dropped_fields = [], dropped_weights = 0, dropped_runinfo_keys = [],
     loss_examples = [] \<rparr>"

text \<open>
  The value of an attribute, as far as \<open>_non_default\<close> looks at it: \<open>PSeq n\<close> is a list,
  tuple, dict or set of \<open>n\<close> elements.
  \<^verbatim>\<open>
  def _non_default(val) -> bool:
      if val is None: return False
      if isinstance(val, (int, float)): return val != 0 and val != 0.0 and val != 9.0
      if isinstance(val, (list, tuple, dict, set)): return len(val) != 0
      if isinstance(val, str): return val != ""
      return True
  \<close>
\<close>

datatype pyval = PNone | PInt int | PFloat pyfloat | PSeq nat | PStr string

fun non_default :: "pyval \<Rightarrow> bool" where
  "non_default PNone = False"
| "non_default (PInt i) = (i \<noteq> 0 \<and> i \<noteq> 9)"
| "non_default (PFloat (Fin r)) = (r \<noteq> 0 \<and> r \<noteq> 9)"
| "non_default (PFloat _) = True"
| "non_default (PSeq n) = (n \<noteq> 0)"
| "non_default (PStr s) = (s \<noteq> [])"

text \<open>\<open>getattr(ev, field)\<close> and \<open>getattr(p, field)\<close>; \<open>None\<close> where \<open>hasattr\<close> is false.\<close>

definition event_attr :: "string \<Rightarrow> pyfloat event \<Rightarrow> pyval option" where
  "event_attr field ev = map_of
     [(''event_number'', PInt (event_number ev)),
      (''particles'', PSeq (length (particles ev))),
      (''vertices'', PSeq (length (vertices ev))),
      (''weights'', PSeq (length (weights ev))),
      (''process_id'', PInt (process_id ev)),
      (''scale'', PFloat (scale ev)),
      (''alpha_qed'', PFloat (alpha_qed ev)),
      (''alpha_qcd'', PFloat (alpha_qcd ev)),
      (''n_particles'', PInt (n_particles ev)),
      (''extra'', PSeq (length (extra ev)))] field"

definition particle_attr :: "string \<Rightarrow> pyfloat particle \<Rightarrow> pyval option" where
  "particle_attr field p = map_of
     [(''pdg_id'', PInt (pdg_id p)), (''status'', PInt (status p)),
      (''px'', PFloat (px p)), (''py'', PFloat (py p)), (''pz'', PFloat (pz p)),
      (''energy'', PFloat (energy p)), (''mass'', PFloat (mass p)),
      (''mother1'', PInt (mother1 p)), (''mother2'', PInt (mother2 p)),
      (''color1'', PInt (color1 p)), (''color2'', PInt (color2 p)),
      (''spin'', PFloat (spin p)), (''barcode'', PInt (barcode p)),
      (''vertex_barcode'', PInt (vertex_barcode p)),
      (''end_vertex_barcode'', PInt (end_vertex_barcode p)),
      (''attributes'', PSeq (length (attributes p)))] field"

text \<open>
  \<^verbatim>\<open>
  def _record_example(key, ex):
      lst = counter.loss_examples.get(key)
      if lst is None:
          lst = []; counter.loss_examples[key] = lst
      if len(lst) < 5:
          lst.append(ex)
  \<close>
\<close>

definition record_example :: "string \<Rightarrow> json \<Rightarrow> loss_counter \<Rightarrow> loss_counter" where
  "record_example key ex c =
     (let lst = (case map_of (loss_examples c) key of None \<Rightarrow> [] | Some l \<Rightarrow> l)
      in c\<lparr>loss_examples := dict_set key (if length lst < 5 then lst @ [ex] else lst)
                                 (loss_examples c)\<rparr>)"

text \<open>\<open>counter.dropped_fields[k] = counter.dropped_fields.get(k, 0) + 1\<close>, then the example.\<close>

definition count_drop :: "string \<Rightarrow> json \<Rightarrow> loss_counter \<Rightarrow> loss_counter" where
  "count_drop key ex c =
     record_example key ex
       (c\<lparr>dropped_fields :=
            dict_set key ((case map_of (dropped_fields c) key of None \<Rightarrow> 0 | Some n \<Rightarrow> n) + 1)
              (dropped_fields c)\<rparr>)"

text \<open>
  The body of the loop of \<open>_wrapped\<close> for one event. The code runs over
  \<open>set(plan["dropped_event_fields"])\<close> and \<open>set(plan["dropped_particle_fields"])\<close>; the
  model runs over the lists of the plan. The order decides only the order of the keys in
  the dictionaries of the counter, which \<open>stable_json_dumps\<close> sorts.
  \<^verbatim>\<open>
  if "weights" in dropped_event and _non_default(ev.weights) and len(ev.weights) > 1:
      counter.dropped_weights += 1
  for field in dropped_event:
      if field == "weights": continue
      if hasattr(ev, field) and _non_default(getattr(ev, field)):
          counter.dropped_fields[f"event.{field}"] = ... + 1
          _record_example(f"event.{field}", {"event": ev.event_number})
  for p in ev.particles:
      for pf in dropped_particle:
          if hasattr(p, pf) and _non_default(getattr(p, pf)):
              k = f"particle.{pf}"
              counter.dropped_fields[k] = ... + 1
              _record_example(k, {"event": ev.event_number,
                                  "particle_barcode": getattr(p, "barcode", 0) or 0})
  \<close>
\<close>

definition observe_event :: "plan \<Rightarrow> loss_counter \<Rightarrow> pyfloat event \<Rightarrow> loss_counter" where
  "observe_event pl c ev =
     (let c1 = (if ''weights'' \<in> set (dropped_event_fields pl)
                   \<and> non_default (PSeq (length (weights ev))) \<and> length (weights ev) > 1
                then c\<lparr>dropped_weights := dropped_weights c + 1\<rparr> else c);
          c2 = foldl (\<lambda>c field.
                  if field = ''weights'' then c
                  else (case event_attr field ev of
                          None \<Rightarrow> c
                        | Some v \<Rightarrow>
                            if non_default v
                            then count_drop (''event.'' @ field)
                                   (JDict [(''event'', JInt (event_number ev))]) c
                            else c))
                c1 (dropped_event_fields pl)
      in foldl (\<lambda>c p.
            foldl (\<lambda>c pf.
               (case particle_attr pf p of
                  None \<Rightarrow> c
                | Some v \<Rightarrow>
                    if non_default v
                    then count_drop (''particle.'' @ pf)
                           (JDict [(''event'', JInt (event_number ev)),
                                   (''particle_barcode'', JInt (barcode p))]) c
                    else c))
              c (dropped_particle_fields pl))
          c2 (particles ev))"

text \<open>
  \<open>observe_losses\<close> returns a generator and the counter. The counter is empty until
  the generator is consumed; once the events \<open>evs\<close> have passed through it, it is
  \<open>observed pl evs\<close>.
\<close>

definition observed :: "plan \<Rightarrow> pyfloat event list \<Rightarrow> loss_counter" where
  "observed pl evs = foldl (observe_event pl) LossCounter evs"

subsection \<open>The loss hash (audit.py)\<close>

definition counts_json :: "(string \<times> int) list \<Rightarrow> json" where
  "counts_json d = JDict (map (\<lambda>(k, n). (k, JInt n)) d)"

definition examples_json :: "(string \<times> json list) list \<Rightarrow> json" where
  "examples_json d = JDict (map (\<lambda>(k, l). (k, JList l)) d)"

text \<open>
  \<^verbatim>\<open>
  payload = {"plan": plan,
             "observed": {"dropped_fields": counter.dropped_fields,
                          "dropped_weights": counter.dropped_weights,
                          "dropped_runinfo_keys": counter.dropped_runinfo_keys,
                          "loss_examples": counter.loss_examples}}
  s = stable_json_dumps(payload)
  return hashlib.sha256(s.encode("utf-8")).hexdigest()
  \<close>
\<close>

definition loss_payload :: "json \<Rightarrow> json \<Rightarrow> json \<Rightarrow> json \<Rightarrow> json \<Rightarrow> json" where
  "loss_payload pl df dw drk le = JDict
     [(''plan'', pl),
      (''observed'', JDict [(''dropped_fields'', df), (''dropped_weights'', dw),
                            (''dropped_runinfo_keys'', drk), (''loss_examples'', le)])]"

definition counter_payload :: "plan \<Rightarrow> loss_counter \<Rightarrow> json" where
  "counter_payload pl c =
     loss_payload (plan_json pl) (counts_json (dropped_fields c)) (JInt (dropped_weights c))
       (counts_json (dropped_runinfo_keys c)) (examples_json (loss_examples c))"

definition loss_hash :: "plan \<Rightarrow> loss_counter \<Rightarrow> string" where
  "loss_hash pl c = sha256_hex (stable_json_dumps (counter_payload pl c))"

subsection \<open>The report of \<open>convert\<close> (convert.py)\<close>

text \<open>
  The steps of \<open>convert\<close> that make the report, in the order of the code:
  \<^verbatim>\<open>
  plan = loss_plan(input_format, output_format)
  ev_iter, loss_counter = observe_losses(ev_iter, plan)
  ...
  lhash = loss_hash(plan, loss_counter)
  prov = build_provenance(..., loss_hash=lhash)
  audit_report = {
      "kind": "hepconduit.conversion_report.v1",
      "loss_plan": plan,
      "observed": {"dropped_fields": loss_counter.dropped_fields,
                   "dropped_weights_events": loss_counter.dropped_weights,
                   "dropped_runinfo_keys": loss_counter.dropped_runinfo_keys,
                   "loss_examples": loss_counter.loss_examples},
      "loss_hash": lhash,
      "provenance": prov}
  ...
  writer.write(str(output_path), _counting(ev_iter), run_info, **writer_kwargs)
  ...
  out_text = stable_json_dumps(audit_report) + "\n"
  \<close>
  \<open>loss_hash\<close> runs before the writer pulls the first event, on the empty counter. The
  report holds the counter's three dictionaries themselves, which the observer fills
  while the writer runs, and the integer \<open>dropped_weights\<close> as it was when the report was
  built. \<open>evs\<close> are the events that reach the observer; the writer consumes them all.
  \<open>build_provenance\<close> reads the clock, git and the input file: the model takes it as a
  function \<open>prov\<close> of the loss hash.
\<close>

definition convert_report ::
  "(string \<Rightarrow> json) \<Rightarrow> string \<Rightarrow> string \<Rightarrow> pyfloat event list \<Rightarrow> (string \<times> json) list" where
  "convert_report prov src_fmt dst_fmt evs =
     (let pl = loss_plan src_fmt dst_fmt;
          at_start = LossCounter;
          lhash = loss_hash pl at_start;
          at_end = observed pl evs
      in [(''kind'', JStr ''hepconduit.conversion_report.v1''),
          (''loss_plan'', plan_json pl),
          (''observed'', JDict
             [(''dropped_fields'', counts_json (dropped_fields at_end)),
              (''dropped_weights_events'', JInt (dropped_weights at_start)),
              (''dropped_runinfo_keys'', counts_json (dropped_runinfo_keys at_end)),
              (''loss_examples'', examples_json (loss_examples at_end))]),
          (''loss_hash'', JStr lhash),
          (''provenance'', prov lhash)])"

text \<open>\<open>d[key]\<close> of a dictionary held as JSON, \<open>JNull\<close> for a missing key.\<close>

definition item :: "string \<Rightarrow> json \<Rightarrow> json" where
  "item key d = (case d of JDict kvs \<Rightarrow> (case map_of kvs key of Some v \<Rightarrow> v | None \<Rightarrow> JNull)
                 | _ \<Rightarrow> JNull)"

text \<open>
  What the claim on the loss hash takes the digest of: the plan of a report together with
  its observed counts, as they stand in that report.
\<close>

definition report_payload :: "(string \<times> json) list \<Rightarrow> json" where
  "report_payload report =
     (let obs = item ''observed'' (JDict report)
      in loss_payload (item ''loss_plan'' (JDict report)) (item ''dropped_fields'' obs)
           (item ''dropped_weights_events'' obs) (item ''dropped_runinfo_keys'' obs)
           (item ''loss_examples'' obs))"

text \<open>
  A conversion from LHE to CSV of a file with one event, of process id 42, and a
  provenance that holds the loss hash only.
\<close>

definition lhe_event :: "pyfloat event" where
  "lhe_event = \<lparr> event_number = 1, particles = [], vertices = [], weights = [Fin 1],
     process_id = 42, scale = Fin 0, alpha_qed = Fin 0, alpha_qcd = Fin 0, n_particles = 0,
     extra = [] \<rparr>"

definition hash_only :: "string \<Rightarrow> json" where
  "hash_only h = JDict [(''loss_hash'', JStr h)]"

text \<open>
  The canonical JSON of the plan of that conversion with empty counts, and with the counts
  of the final report (as Python's \<open>json.dumps\<close> prints them).
\<close>

definition plan_text :: string where
  "plan_text =
     ''\"plan\":{\"dropped_event_fields\":[\"alpha_qcd\",\"alpha_qed\",\"process_id\",\"'' @
     ''scale\",\"weights\"],\"dropped_particle_fields\":[],\"dropped_run_fields\":[\"'' @
     ''beam_energy\",\"beam_pdg_id\",\"extra\",\"generator_name\",\"generator_version'' @
     ''\",\"processes\",\"weight_names\"],\"input_format\":\"lhe\",\"output_format\":\"cs'' @
     ''v\"}}''"

definition hashed_text :: string where
  "hashed_text =
     ''{\"observed\":{\"dropped_fields\":{},\"dropped_runinfo_keys\":{},\"dropped_we'' @
     ''ights\":0,\"loss_examples\":{}},'' @
     plan_text"

definition final_text :: string where
  "final_text =
     ''{\"observed\":{\"dropped_fields\":{\"event.process_id\":1},\"dropped_runinfo_'' @
     ''keys\":{},\"dropped_weights\":0,\"loss_examples\":{\"event.process_id\":[{\"ev'' @
     ''ent\":1}]}},'' @
     plan_text"

section \<open>Binary64 arithmetic (the floats of CPython)\<close>

text \<open>
  A Python float is an IEEE 754 binary64 number: here \<open>Fin x\<close> for a real \<open>x\<close> that is
  representable, the two infinities and not-a-number. The two zeros are one value
  \<open>Fin 0\<close>: they are equal in every comparison, and no operation below tells them apart.
  Every operation returns the exact result rounded to the nearest representable number,
  a tie going to the even significand.
\<close>

text \<open>The real number \<open>2^e\<close>.\<close>

definition pow2 :: "int \<Rightarrow> real" where
  "pow2 e = (if e \<ge> 0 then 2 ^ nat e else 1 / 2 ^ nat (- e))"

text \<open>
  The binary exponent of \<open>x \<noteq> 0\<close>: the \<open>e\<close> with \<open>2^e \<le> |x| < 2^(e+1)\<close>, searched upwards
  from 0 for \<open>|x| \<ge> 1\<close> and downwards otherwise, over at most 1100 steps. Beyond 1100 steps
  the rounding below does not depend on the exponent any more: the number overflows, or
  it is rounded on the fixed grid of the subnormal numbers.
\<close>

fun binade_up :: "nat \<Rightarrow> real \<Rightarrow> int" where
  "binade_up 0 x = 0"
| "binade_up (Suc n) x = (if 2 \<le> x then binade_up n (x / 2) + 1 else 0)"

fun binade_down :: "nat \<Rightarrow> real \<Rightarrow> int" where
  "binade_down 0 x = 0"
| "binade_down (Suc n) x = (if x < 1 then binade_down n (2 * x) - 1 else 0)"

definition binade :: "real \<Rightarrow> int" where
  "binade x = (if 1 \<le> \<bar>x\<bar> then binade_up 1100 \<bar>x\<bar> else binade_down 1100 \<bar>x\<bar>)"

text \<open>
  Rounding of a real number to binary64: 53 significant bits, the least exponent -1022
  (below it the spacing stays \<open>2^-1074\<close>), and an infinity when the rounded number reaches
  \<open>2^1024\<close>.
\<close>

definition round64 :: "real \<Rightarrow> pyfloat" where
  "round64 x =
     (if x = 0 then Fin 0
      else (let q = max (binade x) (- 1022) - 52;
                r = of_int (py_round (x / pow2 q)) * pow2 q
            in if pow2 1024 \<le> \<bar>r\<bar> then (if 0 < x then PosInf else NegInf) else Fin r))"

fun add64 :: "pyfloat \<Rightarrow> pyfloat \<Rightarrow> pyfloat" where
  "add64 (Fin a) (Fin b) = round64 (a + b)"
| "add64 NaN y = NaN"
| "add64 x NaN = NaN"
| "add64 PosInf NegInf = NaN"
| "add64 NegInf PosInf = NaN"
| "add64 PosInf y = PosInf"
| "add64 NegInf y = NegInf"
| "add64 x PosInf = PosInf"
| "add64 x NegInf = NegInf"

fun neg64 :: "pyfloat \<Rightarrow> pyfloat" where
  "neg64 (Fin a) = Fin (- a)"
| "neg64 PosInf = NegInf"
| "neg64 NegInf = PosInf"
| "neg64 NaN = NaN"

definition sub64 :: "pyfloat \<Rightarrow> pyfloat \<Rightarrow> pyfloat" where
  "sub64 x y = add64 x (neg64 y)"

fun abs64 :: "pyfloat \<Rightarrow> pyfloat" where
  "abs64 (Fin a) = Fin \<bar>a\<bar>"
| "abs64 PosInf = PosInf"
| "abs64 NegInf = PosInf"
| "abs64 NaN = NaN"

text \<open>The quotient, for a divisor that is not zero.\<close>

fun quot64 :: "pyfloat \<Rightarrow> pyfloat \<Rightarrow> pyfloat" where
  "quot64 (Fin a) (Fin b) = round64 (a / b)"
| "quot64 NaN y = NaN"
| "quot64 x NaN = NaN"
| "quot64 (Fin a) PosInf = Fin 0"
| "quot64 (Fin a) NegInf = Fin 0"
| "quot64 PosInf (Fin b) = (if 0 < b then PosInf else NegInf)"
| "quot64 NegInf (Fin b) = (if 0 < b then NegInf else PosInf)"
| "quot64 x y = NaN"

fun lt64 :: "pyfloat \<Rightarrow> pyfloat \<Rightarrow> bool" where
  "lt64 NaN y = False"
| "lt64 x NaN = False"
| "lt64 (Fin a) (Fin b) = (a < b)"
| "lt64 x NegInf = False"
| "lt64 PosInf y = False"
| "lt64 NegInf y = True"
| "lt64 x PosInf = True"

definition gt64 :: "pyfloat \<Rightarrow> pyfloat \<Rightarrow> bool" where
  "gt64 x y = lt64 y x"

definition eq64 :: "pyfloat \<Rightarrow> pyfloat \<Rightarrow> bool" where
  "eq64 x y = (x \<noteq> NaN \<and> x = y)"

definition ge64 :: "pyfloat \<Rightarrow> pyfloat \<Rightarrow> bool" where
  "ge64 x y = (gt64 x y \<or> eq64 x y)"

text \<open>\<open>x**2\<close>: OverflowError when the square of a finite float rounds to an infinity.\<close>

fun square64 :: "pyfloat \<Rightarrow> py_error + pyfloat" where
  "square64 (Fin a) = (case round64 (a * a) of Fin r \<Rightarrow> Inr (Fin r) | _ \<Rightarrow> Inl OverflowError)"
| "square64 NaN = Inr NaN"
| "square64 x = Inr PosInf"

text \<open>\<open>math.sqrt(x)\<close>: ValueError ("math domain error") on a negative float.\<close>

fun sqrt64 :: "pyfloat \<Rightarrow> py_error + pyfloat" where
  "sqrt64 (Fin a) = (if a < 0 then Inl ValueError else Inr (round64 (sqrt a)))"
| "sqrt64 PosInf = Inr PosInf"
| "sqrt64 NegInf = Inl ValueError"
| "sqrt64 NaN = Inr NaN"

text \<open>
  The built-in \<open>sum\<close> starts from the integer 0 and adds the items from left to right.
  (CPython 3.12 and later carry a compensation term along; on a list of at most one
  float, as in the examples below, the two give the same float.)
\<close>

definition sum64 :: "pyfloat list \<Rightarrow> pyfloat" where
  "sum64 xs = foldl add64 (Fin 0) xs"

text \<open>A decimal literal denotes the float nearest to its value.\<close>

definition lit64 :: "int \<Rightarrow> int \<Rightarrow> pyfloat" where
  "lit64 m e = round64 (scale10 m e)"

definition binary64_ops :: "pyfloat float_ops" where
  "binary64_ops = \<lparr> f_lit = lit64, f_sum = sum64, f_sub = sub64, f_quot = quot64,
     f_abs = abs64, f_neg = neg64, f_pow2 = square64, f_sqrt = sqrt64,
     f_lt = lt64, f_gt = gt64, f_ge = ge64, f_eq = eq64 \<rparr>"

subsection \<open>Events of floats used in the examples\<close>

definition photon64 :: "int \<Rightarrow> pyfloat \<Rightarrow> pyfloat \<Rightarrow> pyfloat particle" where
  "photon64 st p_z e = \<lparr> pdg_id = 22, status = st, px = Fin 0, py = Fin 0, pz = p_z, energy = e,
     mass = Fin 0, mother1 = 0, mother2 = 0, color1 = 0, color2 = 0, spin = Fin 9, barcode = 0,
     vertex_barcode = 0, end_vertex_barcode = 0, attributes = [] \<rparr>"

definition event64_of :: "pyfloat particle list \<Rightarrow> pyfloat event" where
  "event64_of ps = \<lparr> event_number = 1, particles = ps, vertices = [], weights = [Fin 1],
     process_id = 0, scale = Fin 0, alpha_qed = Fin 0, alpha_qcd = Fin 0,
     n_particles = int (length ps), extra = [] \<rparr>"

text \<open>One final-state photon (\<open>pz = E = 10.0\<close>) and no incoming particle.\<close>

definition final_only :: "pyfloat event" where
  "final_only = event64_of [photon64 1 (Fin 10) (Fin 10)]"

text \<open>One incoming photon (\<open>pz = 10.0\<close>) and one final-state photon (\<open>pz = 5.0\<close>), \<open>E = 10.0\<close> both.\<close>

definition unbalanced :: "pyfloat event" where
  "unbalanced = event64_of [photon64 (- 1) (Fin 10) (Fin 10), photon64 1 (Fin 5) (Fin 10)]"

text \<open>
  One incoming photon with \<open>pz = 1e-4\<close> and one final-state photon with \<open>pz = 0.0\<close>,
  \<open>E = 1.0\<close> both: the relative imbalance of \<open>pz\<close> is the float \<open>1e-4\<close> itself.
\<close>

definition at_threshold :: "pyfloat event" where
  "at_threshold = event64_of [photon64 (- 1) (lit64 1 (- 4)) (Fin 1), photon64 1 (Fin 0) (Fin 1)]"

text \<open>
  One incoming photon with \<open>pz = 22136092888451464 / 2^66\<close> and one final-state photon
  with \<open>pz = 0.0\<close>, \<open>E = 3.0\<close> both: the exact quotient of the imbalance by 3 lies above
  the float \<open>1e-4\<close>, and the float quotient is \<open>1e-4\<close>.
\<close>

definition above_threshold :: "pyfloat event" where
  "above_threshold = event64_of [photon64 (- 1) (Fin (22136092888451464 / 2 ^ 66)) (Fin 3),
     photon64 1 (Fin 0) (Fin 3)]"

section \<open>Properties\<close>

subsection \<open>Event.weight\<close>

text \<open>
  Claim C10. For every Event, the \<open>weight\<close> property returns \<open>weights[0]\<close> when the
  weights list is non-empty and returns 1.0 when the list is empty; it never raises an
  out-of-bounds error (the result is always an \<open>Inr\<close>).
\<close>

theorem weight_total:
  "weight ev = Inr (case weights ev of [] \<Rightarrow> 1 | w # ws \<Rightarrow> w)"
  by (cases "weights ev") (simp_all add: weight_def py_index_def)

subsection \<open>Momentum conservation check\<close>

lemma momentum_error_append:
  "momentum_error k (xs @ ys) \<longleftrightarrow> momentum_error k xs \<or> momentum_error k ys"
  by (auto simp: momentum_error_def)

lemma momentum_error_Nil: "\<not> momentum_error k []"
  by (simp add: momentum_error_def)

lemma momentum_error_concat_no:
  assumes "\<And>x. x \<in> set xs \<Longrightarrow> \<not> momentum_error k (f x)"
  shows "\<not> momentum_error k (concat (map f xs))"
  using assms by (induction xs) (simp_all add: momentum_error_Nil momentum_error_append)

lemma momentum_error_single:
  "momentum_error k [ValidationIssue lv en pidx msg] \<longleftrightarrow>
     lv = ''error'' \<and> (case msg of MomentumMsg lab a b c d \<Rightarrow> lab = labels ! k | _ \<Rightarrow> False)"
  by (simp add: momentum_error_def)

lemma pdg_check_no_momentum: "\<not> momentum_error k (pdg_check v evt ps)"
  unfolding pdg_check_def
  by (rule momentum_error_concat_no)
     (simp add: momentum_error_Nil momentum_error_single split: prod.split)

lemma energy_check_no_momentum: "\<not> momentum_error k (energy_check ops evt ps)"
  unfolding energy_check_def
  by (rule momentum_error_concat_no)
     (simp add: momentum_error_Nil momentum_error_single split: prod.split)

lemma bind_Inr_iff: "bind r f = Inr y \<longleftrightarrow> (\<exists>x. r = Inr x \<and> f x = Inr y)"
  by (cases r) (simp_all add: bind_def)

lemma mass_check_no_momentum:
  "mass_check ops mt evt ips = Inr issues \<Longrightarrow> \<not> momentum_error k issues"
proof (induction ips arbitrary: issues)
  case Nil
  then show ?case by (simp add: momentum_error_Nil)
next
  case (Cons ip rest)
  obtain i p where ip: "ip = (i, p)" by (cases ip)
  show ?case
  proof (cases "f_eq ops (mass p) (f_lit ops 0 0) \<or> f_lt ops (f_abs ops (mass p)) (f_lit ops 1 (- 3))")
    case True
    with Cons.prems ip have "mass_check ops mt evt rest = Inr issues"
      by (auto split: if_splits)
    then show ?thesis by (rule Cons.IH)
  next
    case False
    with Cons.prems ip obtain computed rel_diff more where
      more: "mass_check ops mt evt rest = Inr more" and
      issues: "issues = (if f_gt ops rel_diff mt
                   then [ValidationIssue ''warning'' evt (Some i)
                           (MassInconsistencyMsg (mass p) computed rel_diff)]
                   else []) @ more"
      by (auto simp: bind_Inr_iff)
    from Cons.IH[OF more] show ?thesis
      by (simp add: issues momentum_error_append momentum_error_single momentum_error_Nil)
  qed
qed

lemma labels_nth:
  "labels ! 0 = ''px''" "labels ! 1 = ''py''" "labels ! 2 = ''pz''" "labels ! 3 = ''E''"
  by (simp_all add: labels_def)

lemma four_sum_nth:
  "four_sum ops ps ! 0 = f_sum ops (map (component 0) ps)"
  "four_sum ops ps ! 1 = f_sum ops (map (component 1) ps)"
  "four_sum ops ps ! 2 = f_sum ops (map (component 2) ps)"
  "four_sum ops ps ! 3 = f_sum ops (map (component 3) ps)"
  by (simp_all add: four_sum_def component_def cong: map_cong)

lemma less4_cases: "k < 4 \<Longrightarrow> k = 0 \<or> k = 1 \<or> k = 2 \<or> k = (3::nat)"
  by arith

lemma momentum_error_if:
  "momentum_error k (if c then [ValidationIssue ''error'' e None (MomentumMsg lab a b d r)] else [])
     \<longleftrightarrow> c \<and> lab = labels ! k"
  by (simp add: momentum_error_def)

text \<open>The divisor of the momentum check is not zero, so that the division returns.\<close>

lemma py_max3_not_zero:
  assumes "floor_positive ops"
  shows "\<not> f_eq ops (py_max3 ops a b (f_lit ops 1 (- 10))) (f_lit ops 0 0)"
  using assms by (auto simp: floor_positive_def py_max3_def py_max2_def)

lemma py_div_max3:
  assumes "floor_positive ops"
  shows "py_div ops x (py_max3 ops a b (f_lit ops 1 (- 10)))
           = Inr (f_quot ops x (py_max3 ops a b (f_lit ops 1 (- 10))))"
  using py_max3_not_zero[OF assms] by (simp add: py_div_def)

lemma momentum_loop_returns:
  assumes "\<not> f_eq ops t (f_lit ops 0 0)"
  shows "momentum_loop ops tol evt si so t js =
     Inr (concat (map (\<lambda>j. if f_gt ops (f_quot ops (f_abs ops (f_sub ops (si ! j) (so ! j))) t) tol
                         then [ValidationIssue ''error'' evt None
                                (MomentumMsg (labels ! j) (si ! j) (so ! j)
                                   (f_abs ops (f_sub ops (si ! j) (so ! j)))
                                   (f_quot ops (f_abs ops (f_sub ops (si ! j) (so ! j))) t))]
                         else []) js))"
  using assms by (induction js) (simp_all add: py_div_def bind_def Let_def)

text \<open>The momentum block, restated with the sums and the ratio of the specification.\<close>

lemma momentum_check_unfold:
  assumes "floor_positive ops"
  shows "momentum_check ops tol (event_number ev) (particles ev) =
     Inr (if filter (\<lambda>p. status p = - 1) (particles ev) \<noteq> [] \<and>
         filter (\<lambda>p. status p = 1) (particles ev) \<noteq> []
      then concat (map (\<lambda>j. if f_gt ops (imbalance ops j ev) tol
                         then [ValidationIssue ''error'' (event_number ev) None
                                (MomentumMsg (labels ! j) (status_sum ops (- 1) j ev)
                                   (status_sum ops 1 j ev)
                                   (f_abs ops (f_sub ops (status_sum ops (- 1) j ev)
                                      (status_sum ops 1 j ev)))
                                   (imbalance ops j ev))]
                         else []) [0, 1, 2, 3])
      else [])"
proof -
  note nz = py_max3_not_zero[OF assms]
  show ?thesis
    by (simp only: momentum_check_def Let_def momentum_loop_returns[OF nz] list.map four_sum_nth
        imbalance_def status_sum_def if_distrib[of Inr, symmetric])
qed

lemma momentum_check_iff:
  assumes "floor_positive ops" "k < 4"
  shows "emits k (momentum_check ops tol (event_number ev) (particles ev)) \<longleftrightarrow>
     filter (\<lambda>p. status p = - 1) (particles ev) \<noteq> [] \<and>
     filter (\<lambda>p. status p = 1) (particles ev) \<noteq> [] \<and>
     f_gt ops (imbalance ops k ev) tol"
proof (cases "filter (\<lambda>p. status p = - 1) (particles ev) \<noteq> [] \<and>
     filter (\<lambda>p. status p = 1) (particles ev) \<noteq> []")
  case False
  then show ?thesis
    by (simp only: momentum_check_unfold[OF assms(1)] emits_def sum.case if_False momentum_error_Nil)
       blast
next
  case True
  have labs: "''px'' \<noteq> ''py''" "''px'' \<noteq> ''pz''" "''px'' \<noteq> ''E''" "''py'' \<noteq> ''pz''"
     "''py'' \<noteq> ''E''" "''pz'' \<noteq> ''E''" by simp_all
  note simps = momentum_check_unfold[OF assms(1)] emits_def sum.case simp_thms if_True list.map
      concat.simps momentum_error_append momentum_error_Nil momentum_error_if labels_nth
  from less4_cases[OF assms(2)] show ?thesis
  proof (elim disjE)
    assume "k = 0" with True labs show ?thesis by (simp only: simps, auto?)
  next
    assume "k = 1" with True labs show ?thesis by (simp only: simps, auto?)
  next
    assume "k = 2" with True labs show ?thesis by (simp only: simps, auto?)
  next
    assume "k = 3" with True labs show ?thesis by (simp only: simps, auto?)
  qed
qed

lemma momentum_check_Inr:
  assumes "floor_positive ops"
  shows "\<exists>ms. momentum_check ops tol evt ps = Inr ms"
proof -
  note nz = py_max3_not_zero[OF assms]
  show ?thesis
    by (simp only: momentum_check_def Let_def momentum_loop_returns[OF nz]) simp
qed

text \<open>Evaluation of the binary64 operations on numerals.\<close>

lemma binade_up_numeral:
  "binade_up (numeral n) x = (if 2 \<le> x then binade_up (pred_numeral n) (x / 2) + 1 else 0)"
  by (simp add: numeral_eq_Suc)

lemma binade_down_numeral:
  "binade_down (numeral n) x = (if x < 1 then binade_down (pred_numeral n) (2 * x) - 1 else 0)"
  by (simp add: numeral_eq_Suc)

lemmas float_eval = binary64_ops_def lit64_def sum64_def sub64_def gt64_def eq64_def ge64_def
  round64_def binade_def binade_up_numeral binade_down_numeral pow2_def scale10_def py_round_def
  py_max3_def py_max2_def py_div_def Let_def

lemma lit64_values:
  "lit64 0 0 = Fin 0"
  "lit64 1 (- 4) = Fin (7378697629483821 / 2 ^ 66)"
  "lit64 1 (- 10) = Fin (7737125245533627 / 2 ^ 86)"
  by (simp_all add: float_eval)

lemma binary64_floor_positive: "floor_positive binary64_ops"
proof -
  have "lt64 x (Fin (7737125245533627 / 2 ^ 86))" if "x = Fin 0" for x
    using that by simp
  then show ?thesis
    by (auto simp: floor_positive_def binary64_ops_def lit64_values eq64_def gt64_def)
qed

text \<open>
  Claim C6, as the specification states it: a momentum-conservation error for component
  \<open>k\<close> is emitted exactly when the relative imbalance of that component exceeds
  \<open>momentum_tolerance\<close>. It fails on an event with a final-state particle and no
  incoming one: the imbalance of \<open>pz\<close> is \<open>10.0 / 10.0\<close>, above the default tolerance,
  and the validator returns the empty list, because the check runs only when both lists
  are non-empty.
\<close>

theorem momentum_error_unguarded_counterexample:
  "f_gt binary64_ops (imbalance binary64_ops 2 final_only)
     (momentum_tolerance (default_opts binary64_ops))
   \<and> validate_event binary64_ops (\<lambda>_. True) (default_opts binary64_ops) final_only = Inr []
   \<and> \<not> emits 2 (validate_event binary64_ops (\<lambda>_. True) (default_opts binary64_ops) final_only)"
proof -
  have 1: "imbalance binary64_ops 2 final_only = Fin 1"
    by (simp add: imbalance_def status_sum_def component_def final_only_def event64_of_def
        photon64_def float_eval)
  have 2: "momentum_tolerance (default_opts binary64_ops) = Fin (7378697629483821 / 2 ^ 66)"
    by (simp add: default_opts_def binary64_ops_def lit64_values)
  have 3: "validate_event binary64_ops (\<lambda>_. True) (default_opts binary64_ops) final_only = Inr []"
    by (simp add: validate_event_def default_opts_def final_only_def event64_of_def photon64_def
        pdg_check_def energy_check_def momentum_check_def enumerate_eq_zip bind_def
        binary64_ops_def lit64_values eq64_def)
  show ?thesis
    by (simp add: 1 2 3 emits_def momentum_error_Nil) (simp add: binary64_ops_def gt64_def)
qed

text \<open>
  Claim C6, amended. The floats are those of the interpreter: every sum, difference and
  quotient is rounded, and the comparison is made on the rounded ratio. With the momentum
  check enabled, \<open>validate_event\<close> emits a momentum-conservation error for component \<open>k\<close>
  exactly when the mass check (if enabled) raises nothing, the event has at least one
  status -1 particle and at least one status 1 particle, and the relative imbalance of
  that component exceeds \<open>momentum_tolerance\<close>.
\<close>

theorem momentum_error_iff:
  assumes "floor_positive ops" and "check_momentum opts" and "k < 4"
  shows "emits k (validate_event ops is_valid_pdg_id opts ev) \<longleftrightarrow>
     (check_mass opts \<longrightarrow>
        returns (mass_check ops (mass_tolerance opts) (event_number ev)
                   (enumerate 0 (particles ev)))) \<and>
     filter (\<lambda>p. status p = - 1) (particles ev) \<noteq> [] \<and>
     filter (\<lambda>p. status p = 1) (particles ev) \<noteq> [] \<and>
     f_gt ops (imbalance ops k ev) (momentum_tolerance opts)"
proof (cases "particles ev = []")
  case True
  then show ?thesis by (simp add: validate_event_def emits_def momentum_error_single)
next
  case False
  let ?mass = "if check_mass opts
     then mass_check ops (mass_tolerance opts) (event_number ev) (enumerate 0 (particles ev))
     else Inr []"
  let ?mom = "momentum_check ops (momentum_tolerance opts) (event_number ev) (particles ev)"
  obtain ms where ms: "?mom = Inr ms"
    using momentum_check_Inr[OF assms(1)] by blast
  have iff: "emits k ?mom \<longleftrightarrow>
     filter (\<lambda>p. status p = - 1) (particles ev) \<noteq> [] \<and>
     filter (\<lambda>p. status p = 1) (particles ev) \<noteq> [] \<and>
     f_gt ops (imbalance ops k ev) (momentum_tolerance opts)"
    by (rule momentum_check_iff[OF assms(1) assms(3)])
  show ?thesis
  proof (cases ?mass)
    case (Inl e)
    then have "validate_event ops is_valid_pdg_id opts ev = Inl e"
      using False by (simp add: validate_event_def Let_def bind_def)
    moreover have "check_mass opts" using Inl by (simp split: if_splits)
    moreover have "\<not> returns (mass_check ops (mass_tolerance opts) (event_number ev)
                   (enumerate 0 (particles ev)))"
      using Inl by (simp add: returns_def split: if_splits)
    ultimately show ?thesis by (simp add: emits_def)
  next
    case (Inr mi)
    have no: "\<not> momentum_error k mi"
    proof (cases "check_mass opts")
      case True
      with Inr show ?thesis by (auto dest: mass_check_no_momentum)
    next
      case False
      with Inr show ?thesis by (auto simp: momentum_error_Nil)
    qed
    have ret: "check_mass opts \<longrightarrow> returns (mass_check ops (mass_tolerance opts) (event_number ev)
                   (enumerate 0 (particles ev)))"
      using Inr by (simp add: returns_def split: if_splits)
    have "validate_event ops is_valid_pdg_id opts ev =
       Inr ((if check_pdg opts then pdg_check is_valid_pdg_id (event_number ev) (particles ev) else [])
          @ (if check_energy opts then energy_check ops (event_number ev) (particles ev) else [])
          @ mi @ ms)"
      using False Inr ms assms(2) by (simp add: validate_event_def Let_def bind_def)
    then have "emits k (validate_event ops is_valid_pdg_id opts ev) \<longleftrightarrow> momentum_error k ms"
      using no
      by (simp add: emits_def momentum_error_append pdg_check_no_momentum
          energy_check_no_momentum momentum_error_Nil)
    also have "\<dots> \<longleftrightarrow> emits k ?mom" by (simp add: ms emits_def)
    finally show ?thesis using iff ret by blast
  qed
qed

text \<open>
  The comparison is made on the rounded quotient: on \<open>above_threshold\<close> the exact
  quotient exceeds the tolerance \<open>1e-4\<close>, and no error is emitted.
\<close>

lemma momentum_rounded_quotient:
  "(22136092888451464 / 2 ^ 66) / 3 > (7378697629483821 / 2 ^ 66 :: real)
   \<and> momentum_tolerance (default_opts binary64_ops) = Fin (7378697629483821 / 2 ^ 66)
   \<and> validate_event binary64_ops (\<lambda>_. True) (default_opts binary64_ops) above_threshold
       = Inr []"
proof -
  have tol: "momentum_tolerance (default_opts binary64_ops) = Fin (7378697629483821 / 2 ^ 66)"
    by (simp add: default_opts_def binary64_ops_def lit64_values)
  have "momentum_check binary64_ops (Fin (7378697629483821 / 2 ^ 66)) 1
          (particles above_threshold) = Inr []"
    by (simp add: momentum_check_def four_sum_def labels_def above_threshold_def event64_of_def
        photon64_def bind_def float_eval)
  then have "validate_event binary64_ops (\<lambda>_. True) (default_opts binary64_ops) above_threshold
       = Inr []"
    by (simp add: tol validate_event_def)
       (simp add: default_opts_def above_threshold_def event64_of_def photon64_def
        pdg_check_def energy_check_def enumerate_eq_zip bind_def binary64_ops_def lit64_values
        eq64_def)
  then show ?thesis using tol by simp
qed

theorem momentum_error_iff_witness:
  "floor_positive binary64_ops \<and> check_momentum (default_opts binary64_ops) \<and> (2::nat) < 4
   \<and> emits 2 (validate_event binary64_ops (\<lambda>_. True) (default_opts binary64_ops) unbalanced)
   \<and> \<not> emits 2 (validate_event binary64_ops (\<lambda>_. True) (default_opts binary64_ops) at_threshold)"
proof -
  have c: "check_momentum (default_opts binary64_ops)" by (simp add: default_opts_def)
  have k: "(2::nat) < 4" by simp
  have tol: "momentum_tolerance (default_opts binary64_ops) = Fin (7378697629483821 / 2 ^ 66)"
    by (simp add: default_opts_def binary64_ops_def lit64_values)
  have "imbalance binary64_ops 2 unbalanced = Fin (1 / 2)"
    by (simp add: imbalance_def status_sum_def component_def unbalanced_def event64_of_def
        photon64_def float_eval)
  then have gt: "f_gt binary64_ops (imbalance binary64_ops 2 unbalanced)
      (momentum_tolerance (default_opts binary64_ops))"
    by (simp add: tol) (simp add: binary64_ops_def gt64_def)
  have "imbalance binary64_ops 2 at_threshold = Fin (7378697629483821 / 2 ^ 66)"
    by (simp add: imbalance_def status_sum_def component_def at_threshold_def event64_of_def
        photon64_def lit64_values) (simp add: float_eval)
  then have ngt: "\<not> f_gt binary64_ops (imbalance binary64_ops 2 at_threshold)
      (momentum_tolerance (default_opts binary64_ops))"
    by (simp add: tol) (simp add: binary64_ops_def gt64_def)
  have m: "mass_check binary64_ops mt 1 (enumerate 0 (particles unbalanced)) = Inr []" for mt
    by (simp add: unbalanced_def event64_of_def photon64_def enumerate_eq_zip binary64_ops_def
        lit64_values eq64_def)
  have f: "filter (\<lambda>p. status p = - 1) (particles unbalanced) \<noteq> []"
    "filter (\<lambda>p. status p = 1) (particles unbalanced) \<noteq> []"
    by (simp_all add: unbalanced_def event64_of_def photon64_def)
  have e: "event_number unbalanced = 1" by (simp add: unbalanced_def event64_of_def)
  have "emits 2 (validate_event binary64_ops (\<lambda>_. True) (default_opts binary64_ops) unbalanced)"
    using momentum_error_iff [OF binary64_floor_positive c k, of "\<lambda>_. True" unbalanced] gt f
    by (simp add: m e returns_def)
  moreover have "\<not> emits 2 (validate_event binary64_ops (\<lambda>_. True) (default_opts binary64_ops)
      at_threshold)"
    using momentum_error_iff [OF binary64_floor_positive c k, of "\<lambda>_. True" at_threshold] ngt
    by blast
  ultimately show ?thesis using binary64_floor_positive c k by blast
qed

subsection \<open>Fingerprint\<close>

lemma particle_key_eq:
  "particle_key tol p = (if tol \<le> 0 then Inl ValueError
     else Inr (status p, pdg_id p, py_round (px p / tol), py_round (py p / tol),
               py_round (pz p / tol), py_round (energy p / tol)))"
  by (simp add: particle_key_def quantize_def)






lemma particle_key_add_component:
  assumes "k < 4"
    and "quantize (component k p + d) tol = quantize (component k p) tol"
  shows "particle_key tol (add_component k d p) = particle_key tol p"
  using less4_cases [OF assms(1)] assms(2)
  by (auto simp: particle_key_eq add_component_def component_def quantize_def split: if_splits)

lemma kept_add_component: "kept cfg (add_component k d p) = kept cfg p"
  by (simp add: kept_def add_component_def)

lemma graph_key_add_component:
  "particle_graph_key (add_component k d p) = particle_graph_key p"
  by (simp add: particle_graph_key_def add_component_def)

lemma status_add_component: "status (add_component k d p) = status p"
  by (simp add: add_component_def)

lemma filter_update_same:
  assumes "i < length xs" and "P y = P (xs ! i)" and "f y = f (xs ! i)"
  shows "map f (filter P (xs[i := y])) = map f (filter P xs)"
  using assms
proof (induction xs arbitrary: i)
  case Nil
  then show ?case by simp
next
  case (Cons x xs)
  show ?case
  proof (cases i)
    case 0
    with Cons.prems show ?thesis by simp
  next
    case (Suc j)
    with Cons.prems have "map f (filter P (xs[j := y])) = map f (filter P xs)"
      by (intro Cons.IH) simp_all
    with Suc show ?thesis by simp
  qed
qed

lemma try_map_update_same:
  assumes "i < length xs" and "P y = P (xs ! i)" and "f y = f (xs ! i)"
  shows "try_map f (filter P (xs[i := y])) = try_map f (filter P xs)"
  using assms
proof (induction xs arbitrary: i)
  case Nil
  then show ?case by simp
next
  case (Cons x xs)
  show ?case
  proof (cases i)
    case 0
    with Cons.prems show ?thesis by simp
  next
    case (Suc j)
    with Cons.prems have "try_map f (filter P (xs[j := y])) = try_map f (filter P xs)"
      by (intro Cons.IH) simp_all
    with Suc show ?thesis by (simp cong: sum.case_cong)
  qed
qed

lemma payload_quarter: "fingerprint_payload unit_config quarter_event = Inr payload_a"
  by (simp add: fingerprint_payload_def unit_config_def default_config_def quarter_event_def
      event_of_def photon_def kept_def particle_key_def quantize_def py_round_def tuple6_def
      str_int_def str_nat.simps payload_a_def)

lemma payload_quarter_moved:
  "fingerprint_payload unit_config (perturb 0 2 (3 / 8) quarter_event) = Inr payload_b"
  by (simp add: fingerprint_payload_def unit_config_def default_config_def quarter_event_def
      event_of_def photon_def kept_def particle_key_def quantize_def py_round_def tuple6_def
      str_int_def str_nat.simps perturb_def add_component_def payload_b_def)

lemma digest_a:
  "sha256_hex payload_a = ''f4a77488ebda65b894840428a36a27b27de251543129e6ca576c73bd6a3d3bee''"
  by code_simp

lemma digest_b:
  "sha256_hex payload_b = ''a141b54926008e4813ad78225e53148a3a6a0ebcbc3f3e890750a0122f656c9c''"
  by code_simp

text \<open>
  Claim C7, as the specification states it: a perturbation \<open>\<delta>\<close> with
  \<open>|\<delta>| < abs_tol/2\<close> of one momentum component leaves the fingerprint unchanged. It
  fails where the perturbation crosses a bucket boundary: with \<open>abs_tol = 1\<close>,
  \<open>pz = 1/4\<close> lies in bucket 0 and \<open>pz + 3/8 = 5/8\<close> in bucket 1, and the two digests
  differ.
\<close>

theorem fingerprint_tolerance_counterexample:
  "\<bar>3 / 8\<bar> < abs_tol unit_config / 2
   \<and> fingerprint_event unit_config (perturb 0 2 (3 / 8) quarter_event)
       \<noteq> fingerprint_event unit_config quarter_event"
proof
  show "\<bar>3 / 8\<bar> < abs_tol unit_config / 2"
    by (simp add: unit_config_def default_config_def)
  show "fingerprint_event unit_config (perturb 0 2 (3 / 8) quarter_event)
       \<noteq> fingerprint_event unit_config quarter_event"
    by (simp add: fingerprint_event_def payload_quarter payload_quarter_moved digest_a digest_b)
qed

text \<open>
  Claim C7, amended: for every event, every particle of it and every perturbation \<open>\<delta>\<close>
  of one of its momentum components \<open>x\<close> such that \<open>x\<close> and \<open>x + \<delta>\<close> quantise to the same
  bucket under the configuration's \<open>abs_tol\<close>, \<open>fingerprint_event\<close> returns the same
  result for the event and the perturbed event under that configuration.
\<close>

theorem fingerprint_same_bucket:
  assumes "i < length (particles ev)" and "k < 4"
    and "quantize (component k (particles ev ! i) + d) (abs_tol cfg)
           = quantize (component k (particles ev ! i)) (abs_tol cfg)"
  shows "fingerprint_event cfg (perturb i k d ev) = fingerprint_event cfg ev"
proof -
  let ?p = "particles ev ! i"
  let ?q = "add_component k d ?p"
  have a: "try_map (particle_key (abs_tol cfg)) (filter (kept cfg) ((particles ev)[i := ?q]))
         = try_map (particle_key (abs_tol cfg)) (filter (kept cfg) (particles ev))"
    using assms(1) by (rule try_map_update_same)
      (simp_all add: kept_add_component particle_key_add_component [OF assms(2,3)])
  have g: "map particle_graph_key (filter (\<lambda>p. status p \<noteq> 3) ((particles ev)[i := ?q]))
         = map particle_graph_key (filter (\<lambda>p. status p \<noteq> 3) (particles ev))"
    using assms(1) by (rule filter_update_same)
      (simp_all add: status_add_component graph_key_add_component)
  have "fingerprint_payload cfg (perturb i k d ev) = fingerprint_payload cfg ev"
    by (simp add: fingerprint_payload_def perturb_def a g Let_def cong: if_cong sum.case_cong)
  then show ?thesis by (simp add: fingerprint_event_def)
qed

theorem fingerprint_same_bucket_witness:
  "0 < length (particles quarter_event) \<and> (2::nat) < 4
   \<and> quantize (component 2 (particles quarter_event ! 0) + 1 / 8) (abs_tol unit_config)
       = quantize (component 2 (particles quarter_event ! 0)) (abs_tol unit_config)
   \<and> fingerprint_event unit_config (perturb 0 2 (1 / 8) quarter_event)
       = fingerprint_event unit_config quarter_event"
proof -
  have i: "0 < length (particles quarter_event)"
    by (simp add: quarter_event_def event_of_def)
  have k: "(2::nat) < 4" by simp
  have q: "quantize (component 2 (particles quarter_event ! 0) + 1 / 8) (abs_tol unit_config)
       = quantize (component 2 (particles quarter_event ! 0)) (abs_tol unit_config)"
    by (simp add: quarter_event_def event_of_def photon_def component_def quantize_def
        py_round_def unit_config_def default_config_def)
  show ?thesis using i k q fingerprint_same_bucket [OF i k q] by simp
qed

subsection \<open>Unsafe filter expressions\<close>

lemma first_error_Some_iff:
  "first_error ns \<noteq> None \<longleftrightarrow> (\<exists>n \<in> set ns. check_node n \<noteq> None)"
  by (induction ns) (auto split: option.splits)

lemma check_bad:
  "is_attribute n \<or> is_subscript n \<or> name_with_prefix ''__'' n \<Longrightarrow> check_node n \<noteq> None"
  by (cases n) (auto simp: check_node.simps)

lemma error_shape: "\<exists>m. (e::filter_error) = UnsafeFilterExpression m"
  by (cases e) simp

text \<open>
  Claim C9, as the specification states it: \<open>compile_filter\<close> raises for every
  expression that contains an identifier beginning with an underscore. It fails on
  \<open>_x > 1\<close>: the tree holds the name \<open>_x\<close>, and \<open>compile_filter\<close> returns the compiled
  filter, because \<open>_validate_ast\<close> rejects only names that begin with two underscores.
\<close>

theorem compile_filter_underscore_counterexample:
  "name_with_prefix ''_'' (Name ''_x'' (Leaf ''Load''))
   \<and> Name ''_x'' (Leaf ''Load'') \<in> set (walk underscore_tree)
   \<and> compile_filter (parses_to underscore_tree) ''_x > 1''
       = Inr (CompiledFilter ''_x > 1'' underscore_tree)"
  by (simp add: compile_filter_def parses_to_def validate_ast_def walk_def underscore_tree_def
      check_node.simps startswith_def allowed_leaves_def)

text \<open>
  Claim C9, amended: \<open>compile_filter\<close> raises UnsafeFilterExpression for every filter
  expression that does not parse as an expression (an \<open>import\<close> statement among them), or
  whose tree contains an attribute access, an indexing, or an identifier beginning with
  two underscores.
\<close>

theorem compile_filter_rejects:
  assumes "(\<exists>msg. parse expr = Inl msg) \<or>
           (\<exists>tree. parse expr = Inr tree \<and>
              (\<exists>n \<in> set (walk tree). is_attribute n \<or> is_subscript n \<or> name_with_prefix ''__'' n))"
  shows "\<exists>m. compile_filter parse expr = Inl (UnsafeFilterExpression m)"
  using assms
proof
  assume "\<exists>msg. parse expr = Inl msg"
  then show ?thesis by (auto simp: compile_filter_def)
next
  assume "\<exists>tree. parse expr = Inr tree \<and>
              (\<exists>n \<in> set (walk tree). is_attribute n \<or> is_subscript n \<or> name_with_prefix ''__'' n)"
  then obtain tree n where p: "parse expr = Inr tree" and n: "n \<in> set (walk tree)"
    and b: "is_attribute n \<or> is_subscript n \<or> name_with_prefix ''__'' n" by blast
  have "first_error (walk tree) \<noteq> None"
    unfolding first_error_Some_iff using n check_bad [OF b] by blast
  then obtain e where "validate_ast tree = Some e" by (auto simp: validate_ast_def)
  with p error_shape [of e] show ?thesis by (auto simp: compile_filter_def)
qed

theorem compile_filter_rejects_witness:
  "parses_to import_tree ''__import__(0).system(0)'' = Inr import_tree
   \<and> name_with_prefix ''__'' (Name ''__import__'' (Leaf ''Load''))
   \<and> Name ''__import__'' (Leaf ''Load'') \<in> set (walk import_tree)
   \<and> (\<exists>m. compile_filter (parses_to import_tree) ''__import__(0).system(0)''
            = Inl (UnsafeFilterExpression m))"
proof -
  have p: "parses_to import_tree ''__import__(0).system(0)'' = Inr import_tree"
    by (simp add: parses_to_def)
  have d: "name_with_prefix ''__'' (Name ''__import__'' (Leaf ''Load''))"
    by (simp add: startswith_def)
  have w: "Name ''__import__'' (Leaf ''Load'') \<in> set (walk import_tree)"
    by (simp add: walk_def import_tree_def)
  have "(\<exists>msg. parses_to import_tree ''__import__(0).system(0)'' = Inl msg) \<or>
        (\<exists>tree. parses_to import_tree ''__import__(0).system(0)'' = Inr tree \<and>
           (\<exists>n \<in> set (walk tree). is_attribute n \<or> is_subscript n \<or> name_with_prefix ''__'' n))"
    using p d w by blast
  from compile_filter_rejects [of "parses_to import_tree" "''__import__(0).system(0)''", OF this]
    p d w show ?thesis by blast
qed

subsection \<open>Production vertex of incoming particles\<close>

lemma incoming_void_simps:
  "incoming_void []"
  "incoming_void (p # ps) \<longleftrightarrow> (status p = - 1 \<longrightarrow> vertex_barcode p = 0) \<and> incoming_void ps"
  by (auto simp: incoming_void_def)

lemma mark_incoming_void: "incoming_void (fst (mark_incoming idx ps pv))"
  by (induction ps arbitrary: idx pv) (simp_all add: incoming_void_simps case_prod_beta)

lemma produce_void: "incoming_void ps \<Longrightarrow> incoming_void (fst (produce idx ps st pv))"
  by (induction ps arbitrary: idx st pv) (simp_all add: incoming_void_simps case_prod_beta)

lemma incoming_void_end:
  "incoming_void ps \<Longrightarrow> incoming_void (map (\<lambda>p. p\<lparr>end_vertex_barcode := f p\<rparr>) ps)"
  by (simp add: incoming_void_def)

text \<open>
  The reconstruction of \<open>io/hepmc3.py\<close> does what the specification says: whenever it
  returns for an event without vertices, every incoming particle has production vertex 0.
\<close>

lemma hepmc3_incoming_void:
  assumes "build_vertices_hepmc3 set_order ev = Inr ev'" and "vertices ev = []"
  shows "incoming_void (particles ev')"
proof -
  obtain ps1 pv1 where m: "mark_incoming 1 (assign_barcodes (particles ev)) [] = (ps1, pv1)"
    by (cases "mark_incoming 1 (assign_barcodes (particles ev)) []") auto
  obtain ps2 st pv2 where p: "produce 1 ps1 recon0 pv1 = (ps2, st, pv2)"
    by (cases "produce 1 ps1 recon0 pv1") auto
  have "incoming_void ps1" using mark_incoming_void [of 1 "assign_barcodes (particles ev)" "[]"] m
    by simp
  then have v: "incoming_void ps2" using produce_void [of ps1 1 recon0 pv1] p by simp
  show ?thesis
  proof (cases "fill_vertices set_order ps2 pv2 (enumerate 1 ps2) (vdict st)")
    case (Inl e)
    with assms m p show ?thesis by (simp add: build_vertices_hepmc3_def Let_def)
  next
    case (Inr vd)
    with assms m p have "ev' = ev\<lparr>particles := map (\<lambda>p. p\<lparr>end_vertex_barcode :=
          (case map_of (incoming_to_vtx vd) (barcode p) of None \<Rightarrow> 0 | Some v \<Rightarrow> v)\<rparr>) ps2,
        vertices := sorted_vertices vd\<rparr>"
      by (simp add: build_vertices_hepmc3_def Let_def)
    with incoming_void_end [OF v] show ?thesis by simp
  qed
qed

text \<open>On the event \<open>collision\<close> it returns, with the pairs (status, vertex_barcode) below.\<close>

lemma hepmc3_collision:
  "map_sum id (\<lambda>e. map (\<lambda>p. (status p, vertex_barcode p)) (particles e))
     (build_vertices_hepmc3 remdups collision) = Inr [(- 1, 0), (- 1, 0), (1, - 1)]"
  by (simp add: build_vertices_hepmc3_def collision_def event_of_def photon_def
      assign_barcodes_def enumerate_eq_zip recon0_def vtx_for_def key_hepmc3_def new_vertex_def
      Let_def upt_rec sorted_vertices_def add_mothers_def append_new_def incoming_to_vtx_def)

text \<open>
  Claim C4: after the vertex reconstructor runs on an event that had no vertices, every
  particle with status -1 has \<open>vertex_barcode\<close> 0, in the HepMC3-writer path and in the
  Parquet-reader path. The reconstruction of \<open>io/parquet.py\<close> breaks it: on the event
  \<open>collision\<close>, which has no vertices, the two incoming particles get the production
  vertex -1. The pairs are (status, vertex_barcode), in the order of the particles.
\<close>

theorem parquet_incoming_vertex:
  "vertices collision = []
   \<and> map_sum id (\<lambda>e. map (\<lambda>p. (status p, vertex_barcode p)) (particles e))
       (build_vertices_parquet collision) = Inr [(- 1, - 1), (- 1, - 1), (1, - 2)]"
  by (simp add: build_vertices_parquet_def collision_def event_of_def photon_def
      assign_barcodes_def enumerate_eq_zip recon0_def vtx_for_def key_parquet_def new_vertex_def
      link_mother_def Let_def upt_rec sorted_vertices_def)

subsection \<open>HepMC3 status codes\<close>

lemmas text_eval = code_def is_space_def is_digit_def is_word_char_def lower_def strip_def
  split_def digits_value_def py_int_def mantissa_def exponent_def decimal_def scale10_def
  py_float_def bind_def int_at_def float_at_def py_index_def eval_nat_numeral

text \<open>
  Claim C5, as the specification states it: a P record whose raw status code is outside
  \<open>{1,2,3,4}\<close> has the raw code stored in \<open>attributes["hepmc_status_raw"]\<close>. It fails on
  \<open>P 1 22 5 0 0 10 10 0\<close>: the particle has status 5 and no attribute, because the
  attribute is set only where the mapped status differs from the raw one.
\<close>

theorem hepmc3_status_raw_counterexample:
  "int_at status5_record 3 = Inr 5
   \<and> map_option (\<lambda>p. (status p, attributes p)) (hepmc3_particle status5_record) = Some (5, [])"
  by (simp add: text_eval hepmc3_particle_def status5_record_def map_status_def vertex_ids_def)

text \<open>
  Claim C5, amended: when the HepMC3 reader builds a particle from a P record of raw
  status code \<open>st\<close>, the particle's status is the mapped code; for \<open>st\<close> outside
  \<open>{1,2,3,4}\<close> the raw code is kept unchanged as the status and no attribute is set;
  \<open>attributes["hepmc_status_raw"]\<close> holds the raw code exactly for the raw codes 3 and 4,
  where mapped and raw code differ.
\<close>

theorem hepmc3_status_raw:
  assumes "hepmc3_particle parts = Some p"
  shows "\<exists>st. int_at parts 3 = Inr st
           \<and> status p = map_status st
           \<and> (st \<notin> {1, 2, 3, 4} \<longrightarrow> status p = st \<and> attributes p = [])
           \<and> map_of (attributes p) ''hepmc_status_raw''
               = (if st = 3 \<or> st = 4 then Some (JInt st) else None)"
proof -
  from assms have e: "\<exists>st. int_at parts 3 = Inr st"
    apply (simp add: hepmc3_particle_def split: if_splits sum.splits)
    apply (clarsimp simp: bind_Inr_iff)
    done
  then obtain st where st: "int_at parts 3 = Inr st" by blast
  from assms st have a: "status p = map_status st"
      "attributes p = (if map_status st \<noteq> st then [(''hepmc_status_raw'', JInt st)] else [])"
    by (auto simp: hepmc3_particle_def bind_Inr_iff split: if_splits sum.splits)
  have "st \<notin> {1, 2, 3, 4} \<longrightarrow> map_status st = st" by (simp add: map_status_def)
  moreover have "map_status st \<noteq> st \<longleftrightarrow> st = 3 \<or> st = 4" by (auto simp: map_status_def)
  ultimately show ?thesis using a st by auto
qed

theorem hepmc3_status_raw_witness:
  "hepmc3_particle beam_record = Some beam_particle
   \<and> int_at beam_record 3 = Inr 4
   \<and> status beam_particle = - 1
   \<and> map_of (attributes beam_particle) ''hepmc_status_raw'' = Some (JInt 4)"
proof -
  have h: "hepmc3_particle beam_record = Some beam_particle"
    by (simp add: text_eval hepmc3_particle_def beam_record_def map_status_def vertex_ids_def
        beam_particle_def)
  have i: "int_at beam_record 3 = Inr 4"
    by (simp add: text_eval beam_record_def)
  from hepmc3_status_raw [OF h] i
  have "map_of (attributes beam_particle) ''hepmc_status_raw'' = Some (JInt 4)"
    and "status beam_particle = map_status 4" by auto
  with h i show ?thesis by (simp add: map_status_def)
qed

subsection \<open>LHE event blocks\<close>

text \<open>
  Whatever the block holds, an event that \<open>_parse_event_block\<close> returns has exactly one
  weight and an empty \<open>extra\<close>.
\<close>

lemma parse_event_block_single_weight:
  assumes "parse_event_block lines n = Inr ev"
  shows "length (weights ev) = 1 \<and> extra ev = []"
proof (cases "find_header lines")
  case None
  with assms show ?thesis by (auto simp: parse_event_block_def default_event_def)
next
  case (Some hr)
  obtain header rest where "hr = (header, rest)" by (cases hr)
  with Some assms show ?thesis
    by (clarsimp simp: parse_event_block_def bind_Inr_iff Let_def)
qed

text \<open>
  Claim C2: a malformed numeric field of a particle row or of the header does not make
  the LHE reader raise; the field takes its default and parsing continues. The code
  raises: on the event of the repository's own fixture \<open>edge_cases.lhe\<close>, \<open>iter_lhe\<close>
  yields no event and ends with the ValueError of \<open>float("1.0D+01")\<close>, and a block whose
  \<open>pz\<close> field is \<open>abc\<close> makes \<open>_parse_event_block\<close> raise ValueError.
\<close>

theorem lhe_malformed_field_raises:
  "iter_lhe edge_case_file = ([], Some ValueError)
   \<and> parse_event_block malformed_block 1 = Inl ValueError"
  by (simp add: text_eval parse_event_block_def edge_case_file_def malformed_block_def
      parse_row_def skipped_def startswith_def iter_lhe_def)

text \<open>
  Claim C3: the entries of the \<open><weights>\<close> and \<open><rwgt>\<close> blocks of an event are appended
  to \<open>event.weights\<close> and their ids recorded under \<open>event.extra["lhe"]\<close>. The code does
  neither: on an event with two entries in each block, the event returned has one weight
  (the one of the header) and an empty \<open>extra\<close>.
\<close>

theorem lhe_weight_blocks_ignored:
  "map_sum id (\<lambda>e. (length (weights e), extra e)) (parse_event_block weights_block 1)
     = Inr (1, [])"
  by (simp add: text_eval parse_event_block_def weights_block_def parse_row_def skipped_def
      startswith_def)

end
